theory Spec2Isabelle
  imports Main "HOL-Library.Sublist"
begin

section \<open>Python values used by the OpenBB provider\<close>

subsection \<open>Exceptions\<close>

text \<open>
  The provider distinguishes exceptions only by class: \<open>except ImportError\<close> in
  \<open>_get_obb\<close> and \<open>except Exception\<close> in the adapters. The classes below are the
  part of Python's hierarchy this needs; \<open>OtherException n\<close> is any other class
  derived from \<open>Exception\<close> (\<open>ValueError\<close>, \<open>KeyError\<close>, an SDK error, ...) and
  \<open>OtherBaseException n\<close> any other class derived from \<open>BaseException\<close> only.
  An exception value carries its class and the text \<open>str(e)\<close>.
\<close>

datatype exn_class =
    KeyboardInterrupt
  | SystemExit
  | GeneratorExit
  | OtherBaseException string
  | ImportError
  | ModuleNotFoundError
  | IndexError
  | OtherException string

datatype py_exn = PyExn (exn_cls: exn_class) (exn_str: string)

fun isinstance_Exception :: "py_exn \<Rightarrow> bool" where
  "isinstance_Exception (PyExn KeyboardInterrupt m) = False"
| "isinstance_Exception (PyExn SystemExit m) = False"
| "isinstance_Exception (PyExn GeneratorExit m) = False"
| "isinstance_Exception (PyExn (OtherBaseException n) m) = False"
| "isinstance_Exception (PyExn c m) = True"

fun isinstance_ImportError :: "py_exn \<Rightarrow> bool" where
  "isinstance_ImportError (PyExn ImportError m) = True"
| "isinstance_ImportError (PyExn ModuleNotFoundError m) = True"
| "isinstance_ImportError (PyExn c m) = False"

subsection \<open>Strings\<close>

text \<open>
  \<open>str.upper\<close> and \<open>str.lower\<close> on the ASCII letters; every other character is
  left as it is.
\<close>

definition upper_char :: "char \<Rightarrow> char" where
  "upper_char c =
     (case map_of (zip ''abcdefghijklmnopqrstuvwxyz'' ''ABCDEFGHIJKLMNOPQRSTUVWXYZ'') c of
        Some u \<Rightarrow> u | None \<Rightarrow> c)"

definition lower_char :: "char \<Rightarrow> char" where
  "lower_char c =
     (case map_of (zip ''ABCDEFGHIJKLMNOPQRSTUVWXYZ'' ''abcdefghijklmnopqrstuvwxyz'') c of
        Some l \<Rightarrow> l | None \<Rightarrow> c)"

definition upper :: "string \<Rightarrow> string" where
  "upper s = map upper_char s"

definition lower :: "string \<Rightarrow> string" where
  "lower s = map lower_char s"

text \<open>\<open>sep.join(xs)\<close>.\<close>

fun join :: "string \<Rightarrow> string list \<Rightarrow> string" where
  "join sep [] = []"
| "join sep [x] = x"
| "join sep (x # y # ys) = x @ sep @ join sep (y # ys)"

text \<open>The decimal text of a non-negative integer, as \<open>str(len(df))\<close> gives it.\<close>

definition digit_char :: "nat \<Rightarrow> char" where
  "digit_char d = ''0123456789'' ! d"

function decimal :: "nat \<Rightarrow> string" where
  "decimal n =
     (if 10 \<le> n then decimal (n div 10) @ [digit_char (n mod 10)] else [digit_char n])"
  by pat_completeness auto
termination
  by (relation "measure (\<lambda>n. n)") auto

declare decimal.simps [simp del]

subsection \<open>Truthiness of optional strings\<close>

text \<open>
  \<open>if x:\<close> for \<open>x: Optional[str]\<close>: \<open>None\<close> and the empty string are false.
\<close>

fun truthy_opt :: "string option \<Rightarrow> bool" where
  "truthy_opt None = False"
| "truthy_opt (Some s) = (s \<noteq> [])"

section \<open>The external collaborators\<close>

subsection \<open>Tables\<close>

text \<open>
  A pandas \<open>DataFrame\<close> as the provider sees it: the column labels and the rows,
  each row being its index label and its cells. The cell type \<open>'v\<close> is left open:
  the SDK decides what the cells are (floats, timestamps, strings).
\<close>

record 'v dataframe =
  columns :: "string list"
  rows :: "('v \<times> 'v list) list"

text \<open>\<open>df.empty\<close>: one of the two axes has length 0.\<close>

definition empty_df :: "'v dataframe \<Rightarrow> bool" where
  "empty_df df = (columns df = [] \<or> rows df = [])"

text \<open>\<open>len(df)\<close>: the number of rows.\<close>

definition len_df :: "'v dataframe \<Rightarrow> nat" where
  "len_df df = length (rows df)"

text \<open>\<open>df.tail(n)\<close>: the last \<open>n\<close> rows, all of them when there are fewer.\<close>

definition tail_df :: "nat \<Rightarrow> 'v dataframe \<Rightarrow> 'v dataframe" where
  "tail_df n df = df\<lparr>rows := drop (length (rows df) - n) (rows df)\<rparr>"

text \<open>
  A row as \<open>iterrows\<close> and \<open>iloc\<close> give it: the cells under their column labels.
  \<open>row.get(key)\<close> is the cell under \<open>key\<close>, or nothing when no column has that label.
\<close>

definition row_get :: "'v dataframe \<Rightarrow> 'v list \<Rightarrow> string \<Rightarrow> 'v option" where
  "row_get df cells key = map_of (zip (columns df) cells) key"

subsection \<open>The SDK\<close>

text \<open>
  Endpoints of the OpenBB SDK that the provider calls, the keyword arguments of a
  call, and the SDK object itself: \<open>call obb ep kw\<close> stands for
  \<open>obb.<ep>(...).to_dataframe()\<close> with the keyword arguments \<open>kw\<close> and is either the exception raised or the table.
\<close>

datatype endpoint =
    Equity_price_historical
  | Equity_profile
  | Equity_fundamental_metrics
  | Equity_fundamental_balance
  | Equity_fundamental_cash
  | Equity_fundamental_income
  | Equity_fundamental_filings
  | Equity_ownership_insider_trading
  | News_company
  | News_world
  | Economy_fred_series

datatype arg = S string | I int

type_synonym kwargs = "(string \<times> arg) list"

record 'v obb =
  call :: "endpoint \<Rightarrow> kwargs \<Rightarrow> py_exn + 'v dataframe"
  fred_api_key :: "string option"

subsection \<open>Python, pandas and the process environment\<close>

text \<open>
  What the provider takes from outside the repository: the result of
  \<open>from openbb import obb\<close>, the environment variables, pandas' \<open>to_csv\<close>,
  \<open>str\<close>, truth value, \<open>is None\<close> and \<open>round(2)\<close> on cells, the formatted
  \<open>datetime.now()\<close>, and the start date of \<open>get_global_news\<close>
  (\<open>strptime\<close>, minus \<open>relativedelta(days=n)\<close>, \<open>strftime\<close>: the exception
  raised for a malformed date, or the text).
\<close>

record 'v world =
  import_openbb :: "py_exn + 'v obb"
  environ :: "string \<rightharpoonup> string"
  to_csv :: "'v dataframe \<Rightarrow> string"
  str_of :: "'v \<Rightarrow> string"
  truthy :: "'v \<Rightarrow> bool"
  is_none :: "'v \<Rightarrow> bool"
  round2 :: "'v \<Rightarrow> 'v"
  now :: string
  start_date_of :: "string \<Rightarrow> int \<Rightarrow> py_exn + string"

subsection \<open>Module state and observable effects\<close>

datatype event =
    ImportOpenbb
  | Getenv string
  | LogInfo string
  | LogWarning string
  | Call endpoint kwargs

text \<open>
  \<open>obb_global\<close> is the module global \<open>_obb\<close>; \<open>trace\<close> records, in order, the
  imports, environment reads, log records and SDK calls made so far.
\<close>

record 'v state =
  obb_global :: "'v obb option"
  trace :: "event list"

definition emit :: "event \<Rightarrow> 'v state \<Rightarrow> 'v state" where
  "emit ev s = s\<lparr>trace := trace s @ [ev]\<rparr>"

text \<open>The SDK calls of a trace, in order.\<close>

fun sdk_calls :: "event list \<Rightarrow> (endpoint \<times> kwargs) list" where
  "sdk_calls [] = []"
| "sdk_calls (Call ep kw # es) = (ep, kw) # sdk_calls es"
| "sdk_calls (e # es) = sdk_calls es"

section \<open>The lazy SDK singleton\<close>

definition not_installed_message :: string where
  "not_installed_message =
     ''openbb is not installed. Install with: pip install '' @ [CHR 0x27] @
     ''openbb[yfinance,sec,fred]'' @ [CHR 0x27]"

text \<open>
  \<open>os.getenv("FRED_API_KEY") or os.getenv("OPENBB_FRED_API_KEY")\<close>: the second
  variable is read only when the first is unset or empty.
\<close>

definition read_fred_key :: "'v world \<Rightarrow> 'v state \<Rightarrow> string option \<times> 'v state" where
  "read_fred_key w s =
     (let a = environ w ''FRED_API_KEY''; s1 = emit (Getenv ''FRED_API_KEY'') s
      in if truthy_opt a then (a, s1)
         else (environ w ''OPENBB_FRED_API_KEY'', emit (Getenv ''OPENBB_FRED_API_KEY'') s1))"

definition get_obb :: "'v world \<Rightarrow> 'v state \<Rightarrow> (py_exn + 'v obb) \<times> 'v state" where
  "get_obb w s =
     (case obb_global s of
        Some cached \<Rightarrow> (Inr cached, s)
      | None \<Rightarrow>
          (case import_openbb w of
             Inl e \<Rightarrow>
               (if isinstance_ImportError e
                then (Inl (PyExn ImportError not_installed_message), emit ImportOpenbb s)
                else (Inl e, emit ImportOpenbb s))
           | Inr imported \<Rightarrow>
               (let (fred_key, s1) = read_fred_key w (emit ImportOpenbb s);
                    configured =
                      (if truthy_opt fred_key then imported\<lparr>fred_api_key := fred_key\<rparr>
                       else imported);
                    s2 = s1\<lparr>obb_global := Some configured\<rparr>
                in (Inr configured, emit (LogInfo ''OpenBB SDK initialized successfully'') s2))))"

section \<open>The adapters\<close>

subsection \<open>Shared control flow\<close>

text \<open>An SDK call inside an adapter's \<open>try\<close> block, recorded in the trace.\<close>

definition sdk :: "'v obb \<Rightarrow> endpoint \<Rightarrow> kwargs \<Rightarrow> 'v state \<Rightarrow> (py_exn + 'v dataframe) \<times> 'v state" where
  "sdk ob ep kw s = (call ob ep kw, emit (Call ep kw) s)"

text \<open>
  \<open>except Exception as e: logger.warning(warn e); return ret e\<close> around the outcome
  of a \<open>try\<close> block. An exception that is not an instance of \<open>Exception\<close> is not
  caught.
\<close>

definition except_Exception ::
  "(py_exn \<Rightarrow> string) \<Rightarrow> (py_exn \<Rightarrow> string) \<Rightarrow> (py_exn + string) \<times> 'v state \<Rightarrow> (py_exn + string) \<times> 'v state" where
  "except_Exception warn ret r =
     (case r of
        (Inl e, s) \<Rightarrow>
          (if isinstance_Exception e then (Inr (ret e), emit (LogWarning (warn e)) s)
           else (Inl e, s))
      | (Inr out, s) \<Rightarrow> (Inr out, s))"

text \<open>The line \<open># Data retrieved on: <now>\<close> and the blank line that ends a header.\<close>

definition retrieved_on :: "'v world \<Rightarrow> string" where
  "retrieved_on w = ''# Data retrieved on: '' @ now w @ [CHR 0x0A, CHR 0x0A]"

definition quoted :: "string \<Rightarrow> string" where
  "quoted s = [CHR 0x27] @ s @ [CHR 0x27]"

subsection \<open>Financial statements\<close>

text \<open>\<open>"quarter" if freq.lower() == "quarterly" else "annual"\<close>.\<close>

definition period_of :: "string \<Rightarrow> string" where
  "period_of freq = (if lower freq = ''quarterly'' then ''quarter'' else ''annual'')"

definition statement_kwargs :: "string \<Rightarrow> string \<Rightarrow> kwargs" where
  "statement_kwargs ticker freq =
     [(''symbol'', S (upper ticker)), (''period'', S (period_of freq)),
      (''provider'', S ''yfinance''), (''limit'', I 8)]"

definition balance_sheet_header :: "'v world \<Rightarrow> string \<Rightarrow> string \<Rightarrow> string" where
  "balance_sheet_header w ticker freq =
     ''# Balance Sheet data for '' @ upper ticker @ '' ('' @ freq @ '')'' @ [CHR 0x0A] @
     ''# Source: OpenBB'' @ [CHR 0x0A] @ retrieved_on w"

definition get_balance_sheet ::
  "'v world \<Rightarrow> string \<Rightarrow> string \<Rightarrow> 'v state \<Rightarrow> (py_exn + string) \<times> 'v state" where
  "get_balance_sheet w ticker freq s =
     (case get_obb w s of
        (Inl e, s0) \<Rightarrow> (Inl e, s0)
      | (Inr ob, s0) \<Rightarrow>
          except_Exception
            (\<lambda>e. ''OpenBB get_balance_sheet failed for '' @ ticker @ '': '' @ exn_str e)
            (\<lambda>e. ''Error retrieving balance sheet for '' @ ticker @ '': '' @ exn_str e)
            (case sdk ob Equity_fundamental_balance (statement_kwargs ticker freq) s0 of
               (Inl e, s1) \<Rightarrow> (Inl e, s1)
             | (Inr df, s1) \<Rightarrow>
                 (if empty_df df
                  then (Inr (''No balance sheet data found for symbol '' @ quoted ticker), s1)
                  else (Inr (balance_sheet_header w ticker freq @ to_csv w df), s1))))"

definition cashflow_header :: "'v world \<Rightarrow> string \<Rightarrow> string \<Rightarrow> string" where
  "cashflow_header w ticker freq =
     ''# Cash Flow data for '' @ upper ticker @ '' ('' @ freq @ '')'' @ [CHR 0x0A] @
     ''# Source: OpenBB'' @ [CHR 0x0A] @ retrieved_on w"

definition get_cashflow ::
  "'v world \<Rightarrow> string \<Rightarrow> string \<Rightarrow> 'v state \<Rightarrow> (py_exn + string) \<times> 'v state" where
  "get_cashflow w ticker freq s =
     (case get_obb w s of
        (Inl e, s0) \<Rightarrow> (Inl e, s0)
      | (Inr ob, s0) \<Rightarrow>
          except_Exception
            (\<lambda>e. ''OpenBB get_cashflow failed for '' @ ticker @ '': '' @ exn_str e)
            (\<lambda>e. ''Error retrieving cash flow for '' @ ticker @ '': '' @ exn_str e)
            (case sdk ob Equity_fundamental_cash (statement_kwargs ticker freq) s0 of
               (Inl e, s1) \<Rightarrow> (Inl e, s1)
             | (Inr df, s1) \<Rightarrow>
                 (if empty_df df
                  then (Inr (''No cash flow data found for symbol '' @ quoted ticker), s1)
                  else (Inr (cashflow_header w ticker freq @ to_csv w df), s1))))"

definition income_statement_header :: "'v world \<Rightarrow> string \<Rightarrow> string \<Rightarrow> string" where
  "income_statement_header w ticker freq =
     ''# Income Statement data for '' @ upper ticker @ '' ('' @ freq @ '')'' @ [CHR 0x0A] @
     ''# Source: OpenBB'' @ [CHR 0x0A] @ retrieved_on w"

definition get_income_statement ::
  "'v world \<Rightarrow> string \<Rightarrow> string \<Rightarrow> 'v state \<Rightarrow> (py_exn + string) \<times> 'v state" where
  "get_income_statement w ticker freq s =
     (case get_obb w s of
        (Inl e, s0) \<Rightarrow> (Inl e, s0)
      | (Inr ob, s0) \<Rightarrow>
          except_Exception
            (\<lambda>e. ''OpenBB get_income_statement failed for '' @ ticker @ '': '' @ exn_str e)
            (\<lambda>e. ''Error retrieving income statement for '' @ ticker @ '': '' @ exn_str e)
            (case sdk ob Equity_fundamental_income (statement_kwargs ticker freq) s0 of
               (Inl e, s1) \<Rightarrow> (Inl e, s1)
             | (Inr df, s1) \<Rightarrow>
                 (if empty_df df
                  then (Inr (''No income statement data found for symbol '' @ quoted ticker), s1)
                  else (Inr (income_statement_header w ticker freq @ to_csv w df), s1))))"

subsection \<open>Insider transactions\<close>

definition insider_kwargs :: "string \<Rightarrow> kwargs" where
  "insider_kwargs ticker =
     [(''symbol'', S (upper ticker)), (''provider'', S ''sec''), (''limit'', I 50)]"

definition insider_header :: "'v world \<Rightarrow> string \<Rightarrow> string" where
  "insider_header w ticker =
     ''# Insider Transactions data for '' @ upper ticker @ [CHR 0x0A] @
     ''# Source: OpenBB (SEC)'' @ [CHR 0x0A] @ retrieved_on w"

definition get_insider_transactions ::
  "'v world \<Rightarrow> string \<Rightarrow> 'v state \<Rightarrow> (py_exn + string) \<times> 'v state" where
  "get_insider_transactions w ticker s =
     (case get_obb w s of
        (Inl e, s0) \<Rightarrow> (Inl e, s0)
      | (Inr ob, s0) \<Rightarrow>
          except_Exception
            (\<lambda>e. ''OpenBB get_insider_transactions failed for '' @ ticker @ '': '' @ exn_str e)
            (\<lambda>e. ''Error retrieving insider transactions for '' @ ticker @ '': '' @ exn_str e)
            (case sdk ob Equity_ownership_insider_trading (insider_kwargs ticker) s0 of
               (Inl e, s1) \<Rightarrow> (Inl e, s1)
             | (Inr df, s1) \<Rightarrow>
                 (if empty_df df
                  then (Inr (''No insider transactions data found for symbol '' @ quoted ticker), s1)
                  else (Inr (insider_header w ticker @ to_csv w df), s1))))"

subsection \<open>Stock prices\<close>

definition col_map :: "(string \<times> string) list" where
  "col_map =
     [(''open'', ''Open''), (''high'', ''High''), (''low'', ''Low''),
      (''close'', ''Close''), (''volume'', ''Volume'')]"

text \<open>\<open>df.rename(columns={k: v for k, v in col_map.items() if k in df.columns})\<close>.\<close>

definition rename_columns :: "'v dataframe \<Rightarrow> 'v dataframe" where
  "rename_columns df =
     df\<lparr>columns := map (\<lambda>c. case map_of col_map c of Some v \<Rightarrow> v | None \<Rightarrow> c) (columns df)\<rparr>"

definition numeric_cols :: "string list" where
  "numeric_cols = [''Open'', ''High'', ''Low'', ''Close'']"

text \<open>
  \<open>df[col] = df[col].round(2)\<close> for the numeric columns that are present: the
  cells of a row that stand under one of these labels are rounded.
\<close>

fun round_cells :: "'v world \<Rightarrow> string list \<Rightarrow> 'v list \<Rightarrow> 'v list" where
  "round_cells w (c # cs) (v # vs) =
     (if c \<in> set numeric_cols then round2 w v else v) # round_cells w cs vs"
| "round_cells w cs vs = vs"

definition round_numeric :: "'v world \<Rightarrow> 'v dataframe \<Rightarrow> 'v dataframe" where
  "round_numeric w df =
     df\<lparr>rows := map (\<lambda>(i, vs). (i, round_cells w (columns df) vs)) (rows df)\<rparr>"

definition stock_kwargs :: "string \<Rightarrow> string \<Rightarrow> string \<Rightarrow> kwargs" where
  "stock_kwargs symbol start_date end_date =
     [(''symbol'', S (upper symbol)), (''start_date'', S start_date),
      (''end_date'', S end_date), (''provider'', S ''yfinance'')]"

definition stock_header :: "'v world \<Rightarrow> string \<Rightarrow> string \<Rightarrow> string \<Rightarrow> nat \<Rightarrow> string" where
  "stock_header w symbol start_date end_date n =
     ''# Stock data for '' @ upper symbol @ '' from '' @ start_date @ '' to '' @ end_date @ [CHR 0x0A] @
     ''# Total records: '' @ decimal n @ [CHR 0x0A] @
     ''# Source: OpenBB (yfinance provider)'' @ [CHR 0x0A] @ retrieved_on w"

definition get_stock_data ::
  "'v world \<Rightarrow> string \<Rightarrow> string \<Rightarrow> string \<Rightarrow> 'v state \<Rightarrow> (py_exn + string) \<times> 'v state" where
  "get_stock_data w symbol start_date end_date s =
     (case get_obb w s of
        (Inl e, s0) \<Rightarrow> (Inl e, s0)
      | (Inr ob, s0) \<Rightarrow>
          except_Exception
            (\<lambda>e. ''OpenBB get_stock_data failed for '' @ symbol @ '': '' @ exn_str e)
            (\<lambda>e. ''Error fetching stock data for '' @ symbol @ '': '' @ exn_str e)
            (case sdk ob Equity_price_historical (stock_kwargs symbol start_date end_date) s0 of
               (Inl e, s1) \<Rightarrow> (Inl e, s1)
             | (Inr df, s1) \<Rightarrow>
                 (if empty_df df
                  then (Inr (''No data found for symbol '' @ quoted symbol @
                             '' between '' @ start_date @ '' and '' @ end_date), s1)
                  else
                    (let df' = round_numeric w (rename_columns df)
                     in (Inr (stock_header w symbol start_date end_date (len_df df') @
                              to_csv w df'), s1)))))"

subsection \<open>FRED series\<close>

text \<open>
  \<open>kwargs = {"symbol": indicator, "provider": "fred"}\<close>, extended by each date
  that is true (neither \<open>None\<close> nor empty).
\<close>

fun optional_kwarg :: "string \<Rightarrow> string option \<Rightarrow> kwargs" where
  "optional_kwarg k None = []"
| "optional_kwarg k (Some d) = (if d \<noteq> [] then [(k, S d)] else [])"

definition fred_kwargs :: "string \<Rightarrow> string option \<Rightarrow> string option \<Rightarrow> kwargs" where
  "fred_kwargs indicator start_date end_date =
     [(''symbol'', S indicator), (''provider'', S ''fred'')] @
     optional_kwarg ''start_date'' start_date @ optional_kwarg ''end_date'' end_date"

definition fred_header :: "'v world \<Rightarrow> string \<Rightarrow> nat \<Rightarrow> string" where
  "fred_header w indicator n =
     ''# FRED Economic Data: '' @ indicator @ [CHR 0x0A] @
     ''# Source: OpenBB (FRED)'' @ [CHR 0x0A] @
     ''# Showing last '' @ decimal n @ '' data points'' @ [CHR 0x0A] @
     retrieved_on w"

definition get_economic_indicators ::
  "'v world \<Rightarrow> string \<Rightarrow> string option \<Rightarrow> string option \<Rightarrow> 'v state \<Rightarrow> (py_exn + string) \<times> 'v state" where
  "get_economic_indicators w indicator start_date end_date s =
     (case get_obb w s of
        (Inl e, s0) \<Rightarrow> (Inl e, s0)
      | (Inr ob, s0) \<Rightarrow>
          except_Exception
            (\<lambda>e. ''OpenBB get_economic_indicators failed for '' @ indicator @ '': '' @ exn_str e)
            (\<lambda>e. ''Error retrieving FRED data for '' @ indicator @ '': '' @ exn_str e)
            (case sdk ob Economy_fred_series (fred_kwargs indicator start_date end_date) s0 of
               (Inl e, s1) \<Rightarrow> (Inl e, s1)
             | (Inr df, s1) \<Rightarrow>
                 (if empty_df df
                  then (Inr (''No data found for FRED series '' @ quoted indicator), s1)
                  else
                    (let recent = tail_df 20 df
                     in (Inr (fred_header w indicator (len_df recent) @ to_csv w recent), s1)))))"

subsection \<open>News and filings\<close>

text \<open>
  The value of \<open>row.get(key, default)\<close>: the cell under \<open>key\<close>, or the default,
  which the provider always gives as a string (possibly through a nested
  \<open>row.get\<close>). \<open>field_str\<close> is its text in an f-string, \<open>field_truthy\<close> its truth
  value in \<open>if x:\<close>.
\<close>

datatype 'v field = Cell 'v | Default string

definition row_get_default :: "'v dataframe \<Rightarrow> 'v list \<Rightarrow> string \<Rightarrow> 'v field \<Rightarrow> 'v field" where
  "row_get_default df cells key dflt =
     (case row_get df cells key of Some v \<Rightarrow> Cell v | None \<Rightarrow> dflt)"

fun field_str :: "'v world \<Rightarrow> 'v field \<Rightarrow> string" where
  "field_str w (Cell v) = str_of w v"
| "field_str w (Default d) = d"

fun field_truthy :: "'v world \<Rightarrow> 'v field \<Rightarrow> bool" where
  "field_truthy w (Cell v) = truthy w v"
| "field_truthy w (Default d) = (d \<noteq> [])"

definition news_kwargs :: "string \<Rightarrow> string \<Rightarrow> string \<Rightarrow> kwargs" where
  "news_kwargs ticker start_date end_date =
     [(''symbol'', S (upper ticker)), (''start_date'', S start_date),
      (''end_date'', S end_date), (''provider'', S ''yfinance''), (''limit'', I 20)]"

text \<open>One pass of the loop of \<open>get_news\<close>: the text appended for one row.\<close>

definition news_item :: "'v world \<Rightarrow> 'v dataframe \<Rightarrow> 'v list \<Rightarrow> string" where
  "news_item w df row =
     (let title = row_get_default df row ''title'' (Default ''No title'');
          source = row_get_default df row ''source''
                     (row_get_default df row ''publisher'' (Default ''Unknown''));
          url = row_get_default df row ''url'' (row_get_default df row ''link'' (Default []));
          summary = row_get_default df row ''text''
                      (row_get_default df row ''summary'' (Default []))
      in ''### '' @ field_str w title @ '' (source: '' @ field_str w source @ '')'' @ [CHR 0x0A] @
         (if field_truthy w summary then take 500 (field_str w summary) @ [CHR 0x0A] else []) @
         (if field_truthy w url then ''Link: '' @ field_str w url @ [CHR 0x0A] else []) @
         [CHR 0x0A])"

definition get_news ::
  "'v world \<Rightarrow> string \<Rightarrow> string \<Rightarrow> string \<Rightarrow> 'v state \<Rightarrow> (py_exn + string) \<times> 'v state" where
  "get_news w ticker start_date end_date s =
     (case get_obb w s of
        (Inl e, s0) \<Rightarrow> (Inl e, s0)
      | (Inr ob, s0) \<Rightarrow>
          except_Exception
            (\<lambda>e. ''OpenBB get_news failed for '' @ ticker @ '': '' @ exn_str e)
            (\<lambda>e. ''Error fetching news for '' @ ticker @ '': '' @ exn_str e)
            (case sdk ob News_company (news_kwargs ticker start_date end_date) s0 of
               (Inl e, s1) \<Rightarrow> (Inl e, s1)
             | (Inr df, s1) \<Rightarrow>
                 (if empty_df df
                  then (Inr (''No news found for '' @ ticker @ '' between '' @ start_date @
                             '' and '' @ end_date), s1)
                  else (Inr (''## '' @ ticker @ '' News, from '' @ start_date @ '' to '' @
                             end_date @ '':'' @ [CHR 0x0A, CHR 0x0A] @
                             concat (map (\<lambda>(i, row). news_item w df row) (rows df))), s1))))"

definition global_news_kwargs :: "string \<Rightarrow> string \<Rightarrow> int \<Rightarrow> kwargs" where
  "global_news_kwargs start_date curr_date limit =
     [(''start_date'', S start_date), (''end_date'', S curr_date),
      (''provider'', S ''yfinance''), (''limit'', I limit)]"

definition global_news_item :: "'v world \<Rightarrow> 'v dataframe \<Rightarrow> 'v list \<Rightarrow> string" where
  "global_news_item w df row =
     (let title = row_get_default df row ''title'' (Default ''No title'');
          source = row_get_default df row ''source''
                     (row_get_default df row ''publisher'' (Default ''Unknown''));
          url = row_get_default df row ''url'' (row_get_default df row ''link'' (Default []))
      in ''### '' @ field_str w title @ '' (source: '' @ field_str w source @ '')'' @ [CHR 0x0A] @
         (if field_truthy w url then ''Link: '' @ field_str w url @ [CHR 0x0A] else []) @
         [CHR 0x0A])"

text \<open>
  The start date is computed inside the \<open>try\<close> block, before the SDK call: a
  malformed \<open>curr_date\<close> ends the adapter there, through the handler.
\<close>

definition get_global_news ::
  "'v world \<Rightarrow> string \<Rightarrow> int \<Rightarrow> int \<Rightarrow> 'v state \<Rightarrow> (py_exn + string) \<times> 'v state" where
  "get_global_news w curr_date look_back_days limit s =
     (case get_obb w s of
        (Inl e, s0) \<Rightarrow> (Inl e, s0)
      | (Inr ob, s0) \<Rightarrow>
          except_Exception
            (\<lambda>e. ''OpenBB get_global_news failed: '' @ exn_str e)
            (\<lambda>e. ''Error fetching global news: '' @ exn_str e)
            (case start_date_of w curr_date look_back_days of
               Inl e \<Rightarrow> (Inl e, s0)
             | Inr start_date \<Rightarrow>
                 (case sdk ob News_world (global_news_kwargs start_date curr_date limit) s0 of
                    (Inl e, s1) \<Rightarrow> (Inl e, s1)
                  | (Inr df, s1) \<Rightarrow>
                      (if empty_df df
                       then (Inr (''No global news found for '' @ curr_date), s1)
                       else (Inr (''## Global Market News, from '' @ start_date @ '' to '' @
                                  curr_date @ '':'' @ [CHR 0x0A, CHR 0x0A] @
                                  concat (map (\<lambda>(i, row). global_news_item w df row) (rows df))),
                             s1)))))"

definition filings_kwargs :: "string \<Rightarrow> string \<Rightarrow> int \<Rightarrow> kwargs" where
  "filings_kwargs ticker filing_type limit =
     [(''symbol'', S (upper ticker)), (''type'', S filing_type),
      (''provider'', S ''sec''), (''limit'', I limit)]"

text \<open>The lines appended for one row by the loop of \<open>get_sec_filings\<close>.\<close>

definition filing_lines :: "'v world \<Rightarrow> string \<Rightarrow> 'v dataframe \<Rightarrow> 'v list \<Rightarrow> string list" where
  "filing_lines w filing_type df row =
     (let date = row_get_default df row ''filing_date''
                   (row_get_default df row ''date'' (Default ''Unknown''));
          url = row_get_default df row ''link'' (row_get_default df row ''url'' (Default []));
          desc = row_get_default df row ''description''
                   (row_get_default df row ''title'' (Default filing_type))
      in (''- ['' @ field_str w date @ ''] '' @ field_str w desc) #
         (if field_truthy w url then [''  URL: '' @ field_str w url] else []))"

definition filings_header :: "'v world \<Rightarrow> string \<Rightarrow> string \<Rightarrow> string" where
  "filings_header w ticker filing_type =
     ''# SEC '' @ filing_type @ '' Filings for '' @ upper ticker @ [CHR 0x0A] @
     ''# Source: OpenBB (SEC)'' @ [CHR 0x0A] @ retrieved_on w"

definition get_sec_filings ::
  "'v world \<Rightarrow> string \<Rightarrow> string \<Rightarrow> int \<Rightarrow> 'v state \<Rightarrow> (py_exn + string) \<times> 'v state" where
  "get_sec_filings w ticker filing_type limit s =
     (case get_obb w s of
        (Inl e, s0) \<Rightarrow> (Inl e, s0)
      | (Inr ob, s0) \<Rightarrow>
          except_Exception
            (\<lambda>e. ''OpenBB get_sec_filings failed for '' @ ticker @ '': '' @ exn_str e)
            (\<lambda>e. ''Error retrieving SEC filings for '' @ ticker @ '': '' @ exn_str e)
            (case sdk ob Equity_fundamental_filings (filings_kwargs ticker filing_type limit) s0 of
               (Inl e, s1) \<Rightarrow> (Inl e, s1)
             | (Inr df, s1) \<Rightarrow>
                 (if empty_df df
                  then (Inr (''No '' @ filing_type @ '' filings found for '' @ ticker), s1)
                  else (Inr (filings_header w ticker filing_type @
                             join [CHR 0x0A]
                               (concat (map (\<lambda>(i, row). filing_lines w filing_type df row)
                                          (rows df)))), s1))))"

subsection \<open>Fundamentals\<close>

definition field_map :: "(string \<times> string) list" where
  "field_map =
     [(''name'', ''Name''), (''sector'', ''Sector''), (''industry'', ''Industry''),
      (''market_cap'', ''Market Cap''), (''beta'', ''Beta'')]"

definition metric_fields :: "(string \<times> string) list" where
  "metric_fields =
     [(''pe_ratio'', ''PE Ratio (TTM)''), (''forward_pe'', ''Forward PE''),
      (''peg_ratio'', ''PEG Ratio''), (''eps_ttm'', ''EPS (TTM)''),
      (''dividend_yield'', ''Dividend Yield''), (''return_on_equity'', ''Return on Equity''),
      (''debt_to_equity'', ''Debt to Equity''), (''current_ratio'', ''Current Ratio''),
      (''revenue_per_share_ttm'', ''Revenue Per Share (TTM)''),
      (''price_to_book'', ''Price to Book'')]"

text \<open>
  \<open>for src, label in fields.items(): val = row.get(src); if val is not None and
  str(val) != "nan": lines.append(f"{label}: {val}")\<close>.
\<close>

fun labelled_lines ::
  "'v world \<Rightarrow> 'v dataframe \<Rightarrow> 'v list \<Rightarrow> (string \<times> string) list \<Rightarrow> string list" where
  "labelled_lines w df row [] = []"
| "labelled_lines w df row ((src, label) # rest) =
     (case row_get df row src of
        None \<Rightarrow> labelled_lines w df row rest
      | Some val \<Rightarrow>
          (if \<not> is_none w val \<and> str_of w val \<noteq> ''nan''
           then (label @ '': '' @ str_of w val) # labelled_lines w df row rest
           else labelled_lines w df row rest))"

definition profile_kwargs :: "string \<Rightarrow> kwargs" where
  "profile_kwargs ticker = [(''symbol'', S (upper ticker)), (''provider'', S ''yfinance'')]"

text \<open>
  The inner \<open>try\<close> of \<open>get_fundamentals\<close>: the lines the metrics endpoint adds.
  \<open>except Exception: pass\<close> turns a failure into no lines; \<open>iloc[0]\<close> of a table
  without rows raises \<open>IndexError\<close>, which the same handler swallows.
\<close>

definition metrics_lines ::
  "'v world \<Rightarrow> 'v obb \<Rightarrow> string \<Rightarrow> 'v state \<Rightarrow> (py_exn + string list) \<times> 'v state" where
  "metrics_lines w ob ticker s =
     (case sdk ob Equity_fundamental_metrics (profile_kwargs ticker) s of
        (Inl e, s1) \<Rightarrow> (if isinstance_Exception e then (Inr [], s1) else (Inl e, s1))
      | (Inr metrics_df, s1) \<Rightarrow>
          (if empty_df metrics_df then (Inr [], s1)
           else (case rows metrics_df of
                   [] \<Rightarrow> (Inr [], s1)
                 | (i, m) # rest \<Rightarrow> (Inr (labelled_lines w metrics_df m metric_fields), s1))))"

definition fundamentals_header :: "'v world \<Rightarrow> string \<Rightarrow> string" where
  "fundamentals_header w ticker =
     ''# Company Fundamentals for '' @ upper ticker @ [CHR 0x0A] @
     ''# Source: OpenBB'' @ [CHR 0x0A] @ retrieved_on w"

definition get_fundamentals ::
  "'v world \<Rightarrow> string \<Rightarrow> 'v state \<Rightarrow> (py_exn + string) \<times> 'v state" where
  "get_fundamentals w ticker s =
     (case get_obb w s of
        (Inl e, s0) \<Rightarrow> (Inl e, s0)
      | (Inr ob, s0) \<Rightarrow>
          except_Exception
            (\<lambda>e. ''OpenBB get_fundamentals failed for '' @ ticker @ '': '' @ exn_str e)
            (\<lambda>e. ''Error retrieving fundamentals for '' @ ticker @ '': '' @ exn_str e)
            (case sdk ob Equity_profile (profile_kwargs ticker) s0 of
               (Inl e, s1) \<Rightarrow> (Inl e, s1)
             | (Inr profile_df, s1) \<Rightarrow>
                 (if empty_df profile_df
                  then (Inr (''No fundamentals data found for symbol '' @ quoted ticker), s1)
                  else
                    (case rows profile_df of
                       [] \<Rightarrow>
                         (Inl (PyExn IndexError ''single positional indexer is out-of-bounds''), s1)
                     | (i, row) # rest \<Rightarrow>
                         (case metrics_lines w ob ticker s1 of
                            (Inl e, s2) \<Rightarrow> (Inl e, s2)
                          | (Inr extra, s2) \<Rightarrow>
                              (Inr (fundamentals_header w ticker @
                                    join [CHR 0x0A]
                                      (labelled_lines w profile_df row field_map @ extra)),
                               s2))))))"

section \<open>The router\<close>

text \<open>
  Modelled from the spec: \<open>route_to_vendor\<close>, \<open>get_category_for_method\<close>, the
  vendor registry and the category table live in
  \<open>tradingagents/dataflows/interface.py\<close>, which is not among the sources (only
  its callers and its tests are). The definitions below follow sections 4.1 and
  4.2 of the specification.

  The category table maps a category to its capabilities; the registry maps a
  capability to its implementations by vendor, in registration order; the
  configuration maps a category to its preferred vendor; \<open>default_order\<close> is the
  built-in vendor order of a capability, used when the category has no
  configured vendor.
\<close>

type_synonym impl = "arg list \<Rightarrow> py_exn + string"

record registry =
  tools_categories :: "(string \<times> string list) list"
  vendor_methods :: "(string \<times> (string \<times> impl) list) list"
  default_order :: "string \<Rightarrow> string list"

record config =
  data_vendors :: "string \<rightharpoonup> string"

text \<open>
  Modelled from the spec: "returns the category owning \<open>name\<close>; fails with a
  "not found" error if no category declares it".
\<close>

fun get_category_for_method :: "(string \<times> string list) list \<Rightarrow> string \<Rightarrow> py_exn + string" where
  "get_category_for_method [] name =
     Inl (PyExn (OtherException ''ValueError'') (''Method '' @ name @ '' not found''))"
| "get_category_for_method ((category, tools) # cats) name =
     (if name \<in> set tools then Inr category else get_category_for_method cats name)"

text \<open>
  Modelled from the spec: "Builds an ordered candidate list: configured vendor
  first (if it has an implementation for this capability), then remaining
  registered vendors in registration order"; "if unset, uses a built-in default
  vendor order specific to the capability".
\<close>

definition candidates :: "string option \<Rightarrow> string list \<Rightarrow> string list \<Rightarrow> string list" where
  "candidates configured builtin registered =
     (let preferred = (case configured of Some v \<Rightarrow> [v] | None \<Rightarrow> builtin)
      in filter (\<lambda>v. v \<in> set registered) preferred @
         filter (\<lambda>v. v \<notin> set preferred) registered)"

text \<open>
  Modelled from the spec: "Invokes candidates in order; on exception, logs and
  advances to the next candidate; if all candidates raise, propagates the last
  error". The result comes with the vendors tried, in order.
\<close>

datatype route_result = Returned string | Raised py_exn | NoCandidate

fun try_candidates ::
  "(string \<times> impl) list \<Rightarrow> arg list \<Rightarrow> string list \<Rightarrow> route_result \<Rightarrow> string list \<times> route_result" where
  "try_candidates impls args [] prev = ([], prev)"
| "try_candidates impls args (v # vs) prev =
     (case map_of impls v of
        None \<Rightarrow> try_candidates impls args vs prev
      | Some f \<Rightarrow>
          (case f args of
             Inr out \<Rightarrow> ([v], Returned out)
           | Inl e \<Rightarrow>
               (let (tried, r) = try_candidates impls args vs (Raised e) in (v # tried, r))))"

definition route_to_vendor ::
  "registry \<Rightarrow> config \<Rightarrow> string \<Rightarrow> arg list \<Rightarrow> string list \<times> route_result" where
  "route_to_vendor reg cfg name args =
     (case get_category_for_method (tools_categories reg) name of
        Inl e \<Rightarrow> ([], Raised e)
      | Inr category \<Rightarrow>
          (let impls = (case map_of (vendor_methods reg) name of Some vs \<Rightarrow> vs | None \<Rightarrow> [])
           in try_candidates impls args
                (candidates (data_vendors cfg category) (default_order reg name) (map fst impls))
                NoCandidate))"

section \<open>A mocked SDK\<close>

text \<open>
  A concrete world in the manner of the repository's tests: cells are integers,
  texts or missing values, a table is written as plain comma-separated lines
  (a blank corner, the column labels, then one line per row: its index label and
  its cells), and the SDK is a mock that answers every call with one fixed
  outcome.
\<close>

datatype cell = Num int | Text string | NaN

definition decimal_int :: "int \<Rightarrow> string" where
  "decimal_int i = (if 0 \<le> i then decimal (nat i) else CHR ''-'' # decimal (nat (- i)))"

fun cell_str :: "cell \<Rightarrow> string" where
  "cell_str (Num i) = decimal_int i"
| "cell_str (Text t) = t"
| "cell_str NaN = ''nan''"

fun cell_truthy :: "cell \<Rightarrow> bool" where
  "cell_truthy (Num i) = (i \<noteq> 0)"
| "cell_truthy (Text t) = (t \<noteq> [])"
| "cell_truthy NaN = True"

fun csv_field :: "cell \<Rightarrow> string" where
  "csv_field NaN = []"
| "csv_field c = cell_str c"

definition plain_csv :: "cell dataframe \<Rightarrow> string" where
  "plain_csv df =
     join '','' ([] # columns df) @ [CHR 0x0A] @
     concat (map (\<lambda>(i, vs). join '','' (map csv_field (i # vs)) @ [CHR 0x0A]) (rows df))"

definition mock_obb :: "(py_exn + cell dataframe) \<Rightarrow> cell obb" where
  "mock_obb outcome = \<lparr>call = (\<lambda>ep kw. outcome), fred_api_key = None\<rparr>"

definition mock_world :: "string \<Rightarrow> cell world" where
  "mock_world timestamp =
     \<lparr>import_openbb = Inl (PyExn ModuleNotFoundError ''No module named openbb''),
      environ = Map.empty, to_csv = plain_csv, str_of = cell_str, truthy = cell_truthy,
      is_none = (\<lambda>c. False), round2 = (\<lambda>c. c), now = timestamp,
      start_date_of = (\<lambda>d n. Inr ''2025-01-08'')\<rparr>"

definition initialized :: "'v obb \<Rightarrow> 'v state" where
  "initialized ob = \<lparr>obb_global = Some ob, trace = []\<rparr>"

text \<open>The table of \<open>test_balance_sheet_quarterly\<close>, under pandas' default index.\<close>

definition balance_table :: "cell dataframe" where
  "balance_table =
     \<lparr>columns = [''total_assets'', ''total_liabilities''],
      rows = [(Num 0, [Num 100000, Num 50000]), (Num 1, [Num 110000, Num 55000])]\<rparr>"

text \<open>
  The state of the module when it has just been loaded, and the assignment
  \<open>provider._obb = None\<close> that the test fixture makes.
\<close>

definition initial_state :: "'v state" where
  "initial_state = \<lparr>obb_global = None, trace = []\<rparr>"

definition reset :: "'v state \<Rightarrow> 'v state" where
  "reset s = s\<lparr>obb_global := None\<rparr>"

text \<open>A world in which the SDK is installed and a FRED key is set.\<close>

definition installed_world :: "string \<Rightarrow> cell obb \<Rightarrow> cell world" where
  "installed_world timestamp ob =
     (mock_world timestamp)\<lparr>import_openbb := Inr ob,
                             environ := [''FRED_API_KEY'' \<mapsto> ''secret'']\<rparr>"

text \<open>\<open>pd.DataFrame()\<close>, the table of \<open>_make_empty_result\<close>.\<close>

definition empty_table :: "cell dataframe" where
  "empty_table = \<lparr>columns = [], rows = []\<rparr>"

text \<open>
  The cells of a table, and the property that a text shows every cell: the text
  \<open>str\<close> gives for the cell occurs in it.
\<close>

definition cells_of :: "'v dataframe \<Rightarrow> 'v list" where
  "cells_of df = concat (map snd (rows df))"

definition shows_cells :: "'v world \<Rightarrow> 'v dataframe \<Rightarrow> string \<Rightarrow> bool" where
  "shows_cells w df text = list_all (\<lambda>v. sublist (str_of w v) text) (cells_of df)"

text \<open>A FRED series of \<open>n\<close> observations.\<close>

definition fred_table :: "nat \<Rightarrow> cell dataframe" where
  "fred_table n =
     \<lparr>columns = [''value''], rows = map (\<lambda>i. (Num (int i), [Num (int (i + 100))])) [0..<n]\<rparr>"

text \<open>
  A commented CSV block with a record count: the output ends with the CSV text,
  and what stands before it, the header, states the source, the retrieval time
  and the number of records. A header that states a number contains at least
  its decimal text.
\<close>

definition header_of :: "string \<Rightarrow> string \<Rightarrow> string" where
  "header_of out csv = take (length out - length csv) out"

definition commented_csv_block :: "'v world \<Rightarrow> nat \<Rightarrow> string \<Rightarrow> string \<Rightarrow> bool" where
  "commented_csv_block w n csv out =
     (out = header_of out csv @ csv
      \<and> sublist ''# Source: '' (header_of out csv)
      \<and> sublist (''# Data retrieved on: '' @ now w) (header_of out csv)
      \<and> sublist (decimal n) (header_of out csv))"

text \<open>What every header of the tabular adapters does state.\<close>

definition source_and_time :: "'v world \<Rightarrow> string \<Rightarrow> bool" where
  "source_and_time w hdr =
     (sublist ''# Source: OpenBB'' hdr \<and> sublist (''# Data retrieved on: '' @ now w) hdr)"

text \<open>
  A balance sheet of three quarters, and the table of
  \<open>test_returns_csv_with_header\<close> with whole prices.
\<close>

definition three_quarters :: "cell dataframe" where
  "three_quarters =
     \<lparr>columns = [''total_assets''],
      rows = [(Num 0, [Num 100000]), (Num 1, [Num 110000]), (Num 2, [Num 120000])]\<rparr>"

definition price_table :: "cell dataframe" where
  "price_table =
     \<lparr>columns = [''open'', ''high'', ''low'', ''close'', ''volume''],
      rows = [(Num 0, [Num 150, Num 155, Num 149, Num 154, Num 1000000]),
              (Num 1, [Num 151, Num 156, Num 150, Num 155, Num 1100000])]\<rparr>"

text \<open>
  An output reports an exception when it contains "Error" and the text of the
  exception.
\<close>

definition reports :: "py_exn \<Rightarrow> string \<Rightarrow> bool" where
  "reports e out = (sublist ''Error'' out \<and> sublist (exn_str e) out)"

text \<open>
  The profile of \<open>test_returns_formatted_fundamentals\<close> (without its float
  column), and the mock of that test: the profile endpoint answers, every other
  endpoint raises \<open>Exception("not available")\<close>.
\<close>

definition profile_table :: "cell dataframe" where
  "profile_table =
     \<lparr>columns = [''name'', ''sector'', ''industry'', ''market_cap''],
      rows = [(Num 0, [Text ''Apple Inc.'', Text ''Technology'', Text ''Consumer Electronics'',
                       Num 3000000000000])]\<rparr>"

definition metrics_unavailable :: "cell obb" where
  "metrics_unavailable =
     \<lparr>call = (\<lambda>ep kw. if ep = Equity_profile then Inr profile_table
                        else Inl (PyExn (OtherException ''Exception'') ''not available'')),
      fred_api_key = None\<rparr>"

text \<open>
  A registry in the manner of \<open>test_interface_openbb\<close>: stock data with three
  vendors, SEC filings with OpenBB alone; every implementation raises.
\<close>

definition failing :: "string \<Rightarrow> impl" where
  "failing vendor = (\<lambda>args. Inl (PyExn (OtherException ''RuntimeError'') (vendor @ '' failed'')))"

definition example_registry :: registry where
  "example_registry =
     \<lparr>tools_categories =
        [(''core_stock_apis'', [''get_stock_data'']),
         (''macro_data'', [''get_economic_indicators'', ''get_market_overview'']),
         (''sec_data'', [''get_sec_filings''])],
      vendor_methods =
        [(''get_stock_data'',
          [(''yfinance'', failing ''yfinance''), (''alpha_vantage'', failing ''alpha_vantage''),
           (''openbb'', failing ''openbb'')]),
         (''get_sec_filings'', [(''openbb'', failing ''openbb'')])],
      default_order = (\<lambda>name. [])\<rparr>"

definition example_config :: config where
  "example_config =
     \<lparr>data_vendors = [''core_stock_apis'' \<mapsto> ''openbb'', ''sec_data'' \<mapsto> ''openbb'']\<rparr>"

section \<open>Auxiliary facts\<close>

lemma sdk_calls_append: "sdk_calls (xs @ ys) = sdk_calls xs @ sdk_calls ys"
  by (induction xs rule: sdk_calls.induct) simp_all

lemma get_obb_cached: "obb_global s = Some ob \<Longrightarrow> get_obb w s = (Inr ob, s)"
  by (simp add: get_obb_def)

lemma sublist_after: "sublist x ys \<Longrightarrow> sublist x (zs @ ys)"
  by (auto simp: sublist_def) (metis append.assoc)

lemma sublist_before: "sublist x ys \<Longrightarrow> sublist x (ys @ zs)"
  by (auto simp: sublist_def) (metis append.assoc)

lemma hint_in_message: "sublist ''openbb is not installed'' not_installed_message"
  by (simp add: not_installed_message_def)

lemma get_obb_ImportError:
  "obb_global s = None \<Longrightarrow> import_openbb w = Inl e \<Longrightarrow> isinstance_ImportError e \<Longrightarrow>
   get_obb w s = (Inl (PyExn ImportError not_installed_message), emit ImportOpenbb s)"
  by (simp add: get_obb_def)

lemma get_obb_other_failure:
  "obb_global s = None \<Longrightarrow> import_openbb w = Inl e \<Longrightarrow> \<not> isinstance_ImportError e \<Longrightarrow>
   get_obb w s = (Inl e, emit ImportOpenbb s)"
  by (simp add: get_obb_def)

lemma get_obb_success:
  "get_obb w s = (Inr ob, s1) \<Longrightarrow> obb_global s1 = Some ob"
  by (auto simp: get_obb_def read_fred_key_def emit_def Let_def
      split: option.splits sum.splits if_splits prod.splits)

lemma get_obb_imports_when_unset:
  "obb_global s = None \<Longrightarrow> prefix (trace s @ [ImportOpenbb]) (trace (snd (get_obb w s)))"
  by (auto simp: get_obb_def read_fred_key_def emit_def Let_def prefix_def
      split: option.splits sum.splits if_splits prod.splits)

lemma get_obb_returns_import:
  "obb_global s = None \<Longrightarrow> import_openbb w = Inr imported \<Longrightarrow>
   \<exists>ob2 s2. get_obb w s = (Inr ob2, s2) \<and> call ob2 = call imported \<and> obb_global s2 = Some ob2"
  by (auto simp: get_obb_def read_fred_key_def emit_def Let_def
      split: option.splits sum.splits if_splits prod.splits)

lemma sdk_calls_emit_Call:
  "sdk_calls (trace (emit (Call ep kw) s)) = sdk_calls (trace s) @ [(ep, kw)]"
  by (simp add: emit_def sdk_calls_append)

lemma sdk_calls_emit_LogWarning:
  "sdk_calls (trace (emit (LogWarning m) s)) = sdk_calls (trace s)"
  by (simp add: emit_def sdk_calls_append)

lemma sdk_calls_except_Exception:
  "sdk_calls (trace (snd (except_Exception warn ret r))) = sdk_calls (trace (snd r))"
  by (cases r) (auto simp: except_Exception_def sdk_calls_emit_LogWarning split: sum.splits)

lemma statement_calls:
  "sdk_calls (trace (snd (case sdk ob ep kw s of
                            (Inl e, s1) \<Rightarrow> (Inl e, s1)
                          | (Inr df, s1) \<Rightarrow> (if c df then (Inr (f df), s1) else (Inr (g df), s1)))))
     = sdk_calls (trace s) @ [(ep, kw)]"
  by (simp add: sdk_def sdk_calls_emit_Call split: sum.splits)

lemma fred_calls:
  "obb_global s = Some ob \<Longrightarrow>
   sdk_calls (trace (snd (get_economic_indicators w indicator from_date to_date s)))
     = sdk_calls (trace s) @ [(Economy_fred_series, fred_kwargs indicator from_date to_date)]"
  by (simp add: get_economic_indicators_def get_obb_cached sdk_calls_except_Exception
      sdk_def sdk_calls_emit_Call Let_def split: sum.splits)

lemma shows_cells_after: "shows_cells w df text \<Longrightarrow> shows_cells w df (hdr @ text)"
  by (simp add: shows_cells_def list_all_iff sublist_after)

lemma balance_sheet_nonempty:
  "obb_global s = Some ob \<Longrightarrow>
   call ob Equity_fundamental_balance (statement_kwargs ticker freq) = Inr df \<Longrightarrow>
   \<not> empty_df df \<Longrightarrow>
   get_balance_sheet w ticker freq s
     = (Inr (balance_sheet_header w ticker freq @ to_csv w df),
        emit (Call Equity_fundamental_balance (statement_kwargs ticker freq)) s)"
  by (simp add: get_balance_sheet_def get_obb_cached sdk_def except_Exception_def)

lemma upper_AAPL: "upper ''AAPL'' = ''AAPL''"
  by (simp add: upper_def upper_char_def)

lemma quarterly_kwargs:
  "statement_kwargs ''AAPL'' ''quarterly''
     = [(''symbol'', S ''AAPL''), (''period'', S ''quarter''),
        (''provider'', S ''yfinance''), (''limit'', I 8)]"
  by (simp add: statement_kwargs_def period_of_def upper_AAPL lower_def lower_char_def)

lemma balance_sheet_header_title:
  "sublist ''Balance Sheet'' (balance_sheet_header w ticker freq)"
  by (simp add: balance_sheet_header_def sublist_Cons_right)

lemma economic_indicators_nonempty:
  "obb_global s = Some ob \<Longrightarrow>
   call ob Economy_fred_series (fred_kwargs indicator from_date to_date) = Inr df \<Longrightarrow>
   \<not> empty_df df \<Longrightarrow>
   get_economic_indicators w indicator from_date to_date s
     = (Inr (fred_header w indicator (len_df (tail_df 20 df)) @ to_csv w (tail_df 20 df)),
        emit (Call Economy_fred_series (fred_kwargs indicator from_date to_date)) s)"
  by (simp add: get_economic_indicators_def get_obb_cached sdk_def except_Exception_def Let_def)

lemma len_tail_df: "len_df (tail_df n df) = min (len_df df) n"
  by (simp add: len_df_def tail_df_def)

lemma fred_header_count:
  "sublist ([CHR 0x0A] @ ''# Showing last '' @ decimal n @ '' data points'' @ [CHR 0x0A])
     (fred_header w indicator n)"
proof -
  have "fred_header w indicator n
          = (''# FRED Economic Data: '' @ indicator @ [CHR 0x0A] @ ''# Source: OpenBB (FRED)'') @
            ([CHR 0x0A] @ ''# Showing last '' @ decimal n @ '' data points'' @ [CHR 0x0A]) @
            retrieved_on w"
    by (simp add: fred_header_def)
  then show ?thesis
    by (simp only: sublist_appendI)
qed

lemma header_of_append: "header_of (hdr @ csv) csv = hdr"
  by (simp add: header_of_def)

lemma retrieved_on_time: "sublist (''# Data retrieved on: '' @ now w) (retrieved_on w)"
  by (simp add: retrieved_on_def)

lemma source_and_time_header:
  "source_and_time w (title @ [CHR 0x0A] @ ''# Source: OpenBB'' @ rest @ retrieved_on w)"
proof -
  have "sublist ''# Source: OpenBB'' ((title @ [CHR 0x0A]) @ ''# Source: OpenBB'' @ (rest @ retrieved_on w))"
    by (rule sublist_appendI)
  moreover have "sublist (''# Data retrieved on: '' @ now w)
                   ((title @ [CHR 0x0A] @ ''# Source: OpenBB'' @ rest) @ retrieved_on w)"
    by (rule sublist_after [OF retrieved_on_time])
  ultimately show ?thesis
    by (simp add: source_and_time_def)
qed

lemma balance_sheet_header_ok: "source_and_time w (balance_sheet_header w ticker freq)"
  using source_and_time_header [of w "''# Balance Sheet data for '' @ upper ticker @ '' ('' @ freq @ '')''" "[CHR 0x0A]"]
  by (simp add: balance_sheet_header_def)

lemma cashflow_header_ok: "source_and_time w (cashflow_header w ticker freq)"
  using source_and_time_header [of w "''# Cash Flow data for '' @ upper ticker @ '' ('' @ freq @ '')''" "[CHR 0x0A]"]
  by (simp add: cashflow_header_def)

lemma income_statement_header_ok: "source_and_time w (income_statement_header w ticker freq)"
  using source_and_time_header [of w "''# Income Statement data for '' @ upper ticker @ '' ('' @ freq @ '')''" "[CHR 0x0A]"]
  by (simp add: income_statement_header_def)

lemma insider_header_ok: "source_and_time w (insider_header w ticker)"
  using source_and_time_header [of w "''# Insider Transactions data for '' @ upper ticker" "'' (SEC)'' @ [CHR 0x0A]"]
  by (simp add: insider_header_def)

lemma stock_header_ok: "source_and_time w (stock_header w symbol start_date end_date n)"
  using source_and_time_header [of w "''# Stock data for '' @ upper symbol @ '' from '' @ start_date @ '' to '' @ end_date @ [CHR 0x0A] @ ''# Total records: '' @ decimal n" "'' (yfinance provider)'' @ [CHR 0x0A]"]
  by (simp add: stock_header_def)

lemma fred_header_ok: "source_and_time w (fred_header w indicator n)"
proof -
  have "sublist ''# Source: OpenBB''
          ((''# FRED Economic Data: '' @ indicator @ [CHR 0x0A]) @ ''# Source: OpenBB'' @
           ('' (FRED)'' @ [CHR 0x0A] @ ''# Showing last '' @ decimal n @ '' data points'' @
            [CHR 0x0A] @ retrieved_on w))"
    by (rule sublist_appendI)
  moreover have "sublist (''# Data retrieved on: '' @ now w)
          ((''# FRED Economic Data: '' @ indicator @ [CHR 0x0A] @ ''# Source: OpenBB (FRED)'' @
            [CHR 0x0A] @ ''# Showing last '' @ decimal n @ '' data points'' @ [CHR 0x0A]) @
           retrieved_on w)"
    by (rule sublist_after [OF retrieved_on_time])
  ultimately show ?thesis
    by (simp add: source_and_time_def fred_header_def)
qed

lemma stock_header_count:
  "sublist (''# Total records: '' @ decimal n @ [CHR 0x0A])
     (stock_header w symbol start_date end_date n)"
proof -
  have "stock_header w symbol start_date end_date n
          = (''# Stock data for '' @ upper symbol @ '' from '' @ start_date @ '' to '' @
             end_date @ [CHR 0x0A]) @
            (''# Total records: '' @ decimal n @ [CHR 0x0A]) @
            (''# Source: OpenBB (yfinance provider)'' @ [CHR 0x0A] @ retrieved_on w)"
    by (simp add: stock_header_def)
  then show ?thesis
    by (simp only: sublist_appendI)
qed

lemma len_round_rename: "len_df (round_numeric w (rename_columns df)) = len_df df"
  by (simp add: len_df_def round_numeric_def rename_columns_def)

lemma stock_data_nonempty:
  "obb_global s = Some ob \<Longrightarrow>
   call ob Equity_price_historical (stock_kwargs symbol start_date end_date) = Inr df \<Longrightarrow>
   \<not> empty_df df \<Longrightarrow>
   get_stock_data w symbol start_date end_date s
     = (Inr (stock_header w symbol start_date end_date (len_df df) @
             to_csv w (round_numeric w (rename_columns df))),
        emit (Call Equity_price_historical (stock_kwargs symbol start_date end_date)) s)"
  by (simp add: get_stock_data_def get_obb_cached sdk_def except_Exception_def Let_def
      len_round_rename)

lemma cashflow_nonempty:
  "obb_global s = Some ob \<Longrightarrow>
   call ob Equity_fundamental_cash (statement_kwargs ticker freq) = Inr df \<Longrightarrow>
   \<not> empty_df df \<Longrightarrow>
   get_cashflow w ticker freq s
     = (Inr (cashflow_header w ticker freq @ to_csv w df),
        emit (Call Equity_fundamental_cash (statement_kwargs ticker freq)) s)"
  by (simp add: get_cashflow_def get_obb_cached sdk_def except_Exception_def)

lemma income_statement_nonempty:
  "obb_global s = Some ob \<Longrightarrow>
   call ob Equity_fundamental_income (statement_kwargs ticker freq) = Inr df \<Longrightarrow>
   \<not> empty_df df \<Longrightarrow>
   get_income_statement w ticker freq s
     = (Inr (income_statement_header w ticker freq @ to_csv w df),
        emit (Call Equity_fundamental_income (statement_kwargs ticker freq)) s)"
  by (simp add: get_income_statement_def get_obb_cached sdk_def except_Exception_def)

lemma insider_transactions_nonempty:
  "obb_global s = Some ob \<Longrightarrow>
   call ob Equity_ownership_insider_trading (insider_kwargs ticker) = Inr df \<Longrightarrow>
   \<not> empty_df df \<Longrightarrow>
   get_insider_transactions w ticker s
     = (Inr (insider_header w ticker @ to_csv w df),
        emit (Call Equity_ownership_insider_trading (insider_kwargs ticker)) s)"
  by (simp add: get_insider_transactions_def get_obb_cached sdk_def except_Exception_def)

lemma get_balance_sheet_raises:
  "obb_global s = Some ob \<Longrightarrow> isinstance_Exception e \<Longrightarrow>
   call ob Equity_fundamental_balance (statement_kwargs ticker freq) = Inl e \<Longrightarrow>
   fst (get_balance_sheet w ticker freq s)
     = Inr (''Error retrieving balance sheet for '' @ ticker @ '': '' @ exn_str e)"
  by (simp add: get_balance_sheet_def get_obb_cached sdk_def except_Exception_def)

lemma fundamentals_metrics_raise:
  "obb_global s = Some ob \<Longrightarrow> isinstance_Exception e \<Longrightarrow>
   call ob Equity_profile (profile_kwargs ticker) = Inr df \<Longrightarrow> \<not> empty_df df \<Longrightarrow>
   rows df = (i, row) # others \<Longrightarrow>
   call ob Equity_fundamental_metrics (profile_kwargs ticker) = Inl e \<Longrightarrow>
   fst (get_fundamentals w ticker s)
     = Inr (fundamentals_header w ticker @
            join [CHR 0x0A] (labelled_lines w df row field_map))"
  by (simp add: get_fundamentals_def get_obb_cached sdk_def except_Exception_def
      metrics_lines_def)

lemma reports_error: "reports e (''Error'' @ middle @ exn_str e)"
proof -
  have 1: "sublist ''Error'' (''Error'' @ (middle @ exn_str e))"
    by (rule sublist_append_rightI)
  have 2: "sublist (exn_str e) ((''Error'' @ middle) @ exn_str e)"
    by (rule sublist_append_leftI)
  show ?thesis
    using 1 2 by (simp add: reports_def)
qed

lemma adapter_reports:
  "reports e (''Error retrieving balance sheet for '' @ ticker @ '': '' @ exn_str e)"
  "reports e (''Error retrieving cash flow for '' @ ticker @ '': '' @ exn_str e)"
  "reports e (''Error retrieving income statement for '' @ ticker @ '': '' @ exn_str e)"
  "reports e (''Error retrieving insider transactions for '' @ ticker @ '': '' @ exn_str e)"
  "reports e (''Error fetching stock data for '' @ ticker @ '': '' @ exn_str e)"
  "reports e (''Error retrieving fundamentals for '' @ ticker @ '': '' @ exn_str e)"
  "reports e (''Error fetching news for '' @ ticker @ '': '' @ exn_str e)"
  "reports e (''Error retrieving SEC filings for '' @ ticker @ '': '' @ exn_str e)"
  "reports e (''Error retrieving FRED data for '' @ ticker @ '': '' @ exn_str e)"
  using reports_error [of e "'' retrieving balance sheet for '' @ ticker @ '': ''"]
    reports_error [of e "'' retrieving cash flow for '' @ ticker @ '': ''"]
    reports_error [of e "'' retrieving income statement for '' @ ticker @ '': ''"]
    reports_error [of e "'' retrieving insider transactions for '' @ ticker @ '': ''"]
    reports_error [of e "'' fetching stock data for '' @ ticker @ '': ''"]
    reports_error [of e "'' retrieving fundamentals for '' @ ticker @ '': ''"]
    reports_error [of e "'' fetching news for '' @ ticker @ '': ''"]
    reports_error [of e "'' retrieving SEC filings for '' @ ticker @ '': ''"]
    reports_error [of e "'' retrieving FRED data for '' @ ticker @ '': ''"]
  by simp_all

lemma global_news_reports: "reports e (''Error fetching global news: '' @ exn_str e)"
  using reports_error [of e "'' fetching global news: ''"] by simp

lemma get_stock_data_raises:
  "obb_global s = Some ob \<Longrightarrow> isinstance_Exception e \<Longrightarrow>
   call ob Equity_price_historical (stock_kwargs symbol start_date end_date) = Inl e \<Longrightarrow>
   fst (get_stock_data w symbol start_date end_date s) = Inr (''Error fetching stock data for '' @ symbol @ '': '' @ exn_str e)"
  by (simp add: get_stock_data_def get_obb_cached sdk_def except_Exception_def)

lemma get_fundamentals_raises:
  "obb_global s = Some ob \<Longrightarrow> isinstance_Exception e \<Longrightarrow>
   call ob Equity_profile (profile_kwargs ticker) = Inl e \<Longrightarrow>
   fst (get_fundamentals w ticker s) = Inr (''Error retrieving fundamentals for '' @ ticker @ '': '' @ exn_str e)"
  by (simp add: get_fundamentals_def get_obb_cached sdk_def except_Exception_def)

lemma get_cashflow_raises:
  "obb_global s = Some ob \<Longrightarrow> isinstance_Exception e \<Longrightarrow>
   call ob Equity_fundamental_cash (statement_kwargs ticker freq) = Inl e \<Longrightarrow>
   fst (get_cashflow w ticker freq s) = Inr (''Error retrieving cash flow for '' @ ticker @ '': '' @ exn_str e)"
  by (simp add: get_cashflow_def get_obb_cached sdk_def except_Exception_def)

lemma get_income_statement_raises:
  "obb_global s = Some ob \<Longrightarrow> isinstance_Exception e \<Longrightarrow>
   call ob Equity_fundamental_income (statement_kwargs ticker freq) = Inl e \<Longrightarrow>
   fst (get_income_statement w ticker freq s) = Inr (''Error retrieving income statement for '' @ ticker @ '': '' @ exn_str e)"
  by (simp add: get_income_statement_def get_obb_cached sdk_def except_Exception_def)

lemma get_insider_transactions_raises:
  "obb_global s = Some ob \<Longrightarrow> isinstance_Exception e \<Longrightarrow>
   call ob Equity_ownership_insider_trading (insider_kwargs ticker) = Inl e \<Longrightarrow>
   fst (get_insider_transactions w ticker s) = Inr (''Error retrieving insider transactions for '' @ ticker @ '': '' @ exn_str e)"
  by (simp add: get_insider_transactions_def get_obb_cached sdk_def except_Exception_def)

lemma get_news_raises:
  "obb_global s = Some ob \<Longrightarrow> isinstance_Exception e \<Longrightarrow>
   call ob News_company (news_kwargs ticker start_date end_date) = Inl e \<Longrightarrow>
   fst (get_news w ticker start_date end_date s) = Inr (''Error fetching news for '' @ ticker @ '': '' @ exn_str e)"
  by (simp add: get_news_def get_obb_cached sdk_def except_Exception_def)

lemma get_global_news_raises:
  "obb_global s = Some ob \<Longrightarrow> isinstance_Exception e \<Longrightarrow>
   start_date_of w curr_date look_back_days = Inr first_date \<Longrightarrow>
   call ob News_world (global_news_kwargs first_date curr_date limit) = Inl e \<Longrightarrow>
   fst (get_global_news w curr_date look_back_days limit s) = Inr (''Error fetching global news: '' @ exn_str e)"
  by (simp add: get_global_news_def get_obb_cached sdk_def except_Exception_def)

lemma get_sec_filings_raises:
  "obb_global s = Some ob \<Longrightarrow> isinstance_Exception e \<Longrightarrow>
   call ob Equity_fundamental_filings (filings_kwargs ticker filing_type limit) = Inl e \<Longrightarrow>
   fst (get_sec_filings w ticker filing_type limit s) = Inr (''Error retrieving SEC filings for '' @ ticker @ '': '' @ exn_str e)"
  by (simp add: get_sec_filings_def get_obb_cached sdk_def except_Exception_def)

lemma get_economic_indicators_raises:
  "obb_global s = Some ob \<Longrightarrow> isinstance_Exception e \<Longrightarrow>
   call ob Economy_fred_series (fred_kwargs indicator from_date to_date) = Inl e \<Longrightarrow>
   fst (get_economic_indicators w indicator from_date to_date s) = Inr (''Error retrieving FRED data for '' @ indicator @ '': '' @ exn_str e)"
  by (simp add: get_economic_indicators_def get_obb_cached sdk_def except_Exception_def)

lemma candidates_configured:
  "v \<in> set registered \<Longrightarrow>
   candidates (Some v) builtin registered = v # filter (\<lambda>u. u \<noteq> v) registered"
  by (simp add: candidates_def)

lemma candidates_set:
  "v \<in> set registered \<Longrightarrow> set (candidates (Some v) builtin registered) = set registered"
  by (auto simp: candidates_def)

lemma candidates_single:
  "length registered = 1 \<Longrightarrow> length (candidates (Some u) builtin registered) = 1"
  by (cases registered) (auto simp: candidates_def)

lemma candidates_unset:
  "distinct builtin \<Longrightarrow> length (candidates None builtin [x]) = 1"
  by (induction builtin) (auto simp: candidates_def Let_def)

lemma try_all_raise:
  "\<forall>v \<in> set vs. \<exists>f e. map_of impls v = Some f \<and> f args = Inl e \<Longrightarrow>
   fst (try_candidates impls args vs prev) = vs"
proof (induction vs arbitrary: prev)
  case Nil
  then show ?case by simp
next
  case (Cons v vs)
  then obtain f e where f: "map_of impls v = Some f" "f args = Inl e"
    by auto
  have "fst (try_candidates impls args vs (Raised e)) = vs"
    using Cons by simp
  then show ?case
    using f by (simp add: split_beta)
qed

section \<open>The lazy singleton: claims C4 and C5\<close>

text \<open>
  Claim C4. When the SDK package cannot be imported (the import raises
  \<open>ImportError\<close> or a subclass of it) and no client is cached, \<open>_get_obb\<close> raises an
  \<open>ImportError\<close> whose message contains "openbb is not installed". Each adapter
  calls \<open>_get_obb\<close> outside its \<open>try\<close> block, so the adapter raises the same error
  instead of returning an error string. Any other failure of the import leaves
  \<open>_get_obb\<close> as the exception it was, which is not this \<open>ImportError\<close>.
\<close>

theorem missing_sdk_propagates:
  assumes "obb_global s = None" and "import_openbb w = Inl e" and "isinstance_ImportError e"
  shows "fst (get_obb w s) = Inl (PyExn ImportError not_installed_message)
       \<and> sublist ''openbb is not installed'' not_installed_message
       \<and> fst (get_stock_data w symbol start_date end_date s)
           = Inl (PyExn ImportError not_installed_message)
       \<and> fst (get_fundamentals w ticker s) = Inl (PyExn ImportError not_installed_message)
       \<and> fst (get_balance_sheet w ticker freq s) = Inl (PyExn ImportError not_installed_message)
       \<and> fst (get_cashflow w ticker freq s) = Inl (PyExn ImportError not_installed_message)
       \<and> fst (get_income_statement w ticker freq s)
           = Inl (PyExn ImportError not_installed_message)
       \<and> fst (get_insider_transactions w ticker s)
           = Inl (PyExn ImportError not_installed_message)
       \<and> fst (get_news w ticker start_date end_date s)
           = Inl (PyExn ImportError not_installed_message)
       \<and> fst (get_global_news w curr_date look_back_days limit s)
           = Inl (PyExn ImportError not_installed_message)
       \<and> fst (get_sec_filings w ticker filing_type limit s)
           = Inl (PyExn ImportError not_installed_message)
       \<and> fst (get_economic_indicators w indicator from_date to_date s)
           = Inl (PyExn ImportError not_installed_message)
       \<and> (\<forall>w' e'. import_openbb w' = Inl e' \<and> \<not> isinstance_ImportError e' \<longrightarrow>
             fst (get_obb w' s) = Inl e' \<and> e' \<noteq> PyExn ImportError not_installed_message)"
proof -
  have g: "get_obb w s = (Inl (PyExn ImportError not_installed_message), emit ImportOpenbb s)"
    using assms by (rule get_obb_ImportError)
  have other: "\<forall>w' e'. import_openbb w' = Inl e' \<and> \<not> isinstance_ImportError e' \<longrightarrow>
             fst (get_obb w' s) = Inl e' \<and> e' \<noteq> PyExn ImportError not_installed_message"
    using assms(1) by (auto simp: get_obb_other_failure)
  show ?thesis
    using g other hint_in_message
    by (auto simp: get_stock_data_def get_fundamentals_def get_balance_sheet_def get_cashflow_def
        get_income_statement_def get_insider_transactions_def get_news_def get_global_news_def
        get_sec_filings_def get_economic_indicators_def)
qed

theorem missing_sdk_propagates_witness:
  "fst (get_obb (mock_world ''2025-01-15 10:00:00'') initial_state)
     = Inl (PyExn ImportError not_installed_message)
   \<and> fst (get_balance_sheet (mock_world ''2025-01-15 10:00:00'') ''AAPL'' ''quarterly''
            initial_state)
     = Inl (PyExn ImportError not_installed_message)"
  using missing_sdk_propagates [of initial_state "mock_world ''2025-01-15 10:00:00''"
      "PyExn ModuleNotFoundError ''No module named openbb''" _ _ _ "''AAPL''" "''quarterly''"]
  by (simp add: initial_state_def mock_world_def)

text \<open>
  Claim C5. After a call of \<open>_get_obb\<close> that returns a client, the cached reference
  holds that client; every later call, in whatever world, returns the same client
  and leaves the state as it is (so nothing is imported and no environment
  variable is read again); and once the cached reference is reset to \<open>None\<close>, the
  next call imports again and, when the import succeeds, caches and returns the
  newly imported client.
\<close>

theorem lazy_singleton:
  assumes "get_obb w s = (Inr ob, s1)"
  shows "obb_global s1 = Some ob
       \<and> (\<forall>w'. get_obb w' s1 = (Inr ob, s1))
       \<and> (\<forall>w'. prefix (trace s1 @ [ImportOpenbb]) (trace (snd (get_obb w' (reset s1)))))
       \<and> (\<forall>w' imported. import_openbb w' = Inr imported \<longrightarrow>
            (\<exists>ob2 s2. get_obb w' (reset s1) = (Inr ob2, s2) \<and> call ob2 = call imported
                      \<and> obb_global s2 = Some ob2))"
proof -
  have cached: "obb_global s1 = Some ob"
    using assms by (rule get_obb_success)
  have unset: "obb_global (reset s1) = None" and same: "trace (reset s1) = trace s1"
    by (simp_all add: reset_def)
  have again: "\<forall>w'. prefix (trace s1 @ [ImportOpenbb]) (trace (snd (get_obb w' (reset s1))))"
    using get_obb_imports_when_unset [OF unset] same by simp
  have fresh: "\<forall>w' imported. import_openbb w' = Inr imported \<longrightarrow>
            (\<exists>ob2 s2. get_obb w' (reset s1) = (Inr ob2, s2) \<and> call ob2 = call imported
                      \<and> obb_global s2 = Some ob2)"
    using get_obb_returns_import [OF unset] by blast
  show ?thesis
    using cached again fresh by (simp add: get_obb_cached)
qed

theorem lazy_singleton_witness:
  "get_obb (installed_world ''2025-01-15 10:00:00'' (mock_obb (Inr balance_table))) initial_state
     = (Inr ((mock_obb (Inr balance_table))\<lparr>fred_api_key := Some ''secret''\<rparr>),
        \<lparr>obb_global = Some ((mock_obb (Inr balance_table))\<lparr>fred_api_key := Some ''secret''\<rparr>),
         trace = [ImportOpenbb, Getenv ''FRED_API_KEY'',
                  LogInfo ''OpenBB SDK initialized successfully'']\<rparr>)
   \<and> get_obb (mock_world ''2025-01-15 10:00:01'')
       \<lparr>obb_global = Some ((mock_obb (Inr balance_table))\<lparr>fred_api_key := Some ''secret''\<rparr>),
        trace = [ImportOpenbb, Getenv ''FRED_API_KEY'',
                 LogInfo ''OpenBB SDK initialized successfully'']\<rparr>
     = (Inr ((mock_obb (Inr balance_table))\<lparr>fred_api_key := Some ''secret''\<rparr>),
        \<lparr>obb_global = Some ((mock_obb (Inr balance_table))\<lparr>fred_api_key := Some ''secret''\<rparr>),
         trace = [ImportOpenbb, Getenv ''FRED_API_KEY'',
                  LogInfo ''OpenBB SDK initialized successfully'']\<rparr>)"
proof -
  have first: "get_obb (installed_world ''2025-01-15 10:00:00'' (mock_obb (Inr balance_table)))
                 initial_state
     = (Inr ((mock_obb (Inr balance_table))\<lparr>fred_api_key := Some ''secret''\<rparr>),
        \<lparr>obb_global = Some ((mock_obb (Inr balance_table))\<lparr>fred_api_key := Some ''secret''\<rparr>),
         trace = [ImportOpenbb, Getenv ''FRED_API_KEY'',
                  LogInfo ''OpenBB SDK initialized successfully'']\<rparr>)"
    by (simp add: get_obb_def installed_world_def mock_world_def initial_state_def
        read_fred_key_def emit_def Let_def)
  show ?thesis
    using first lazy_singleton [OF first] by simp
qed

section \<open>Empty results: claim C2\<close>

text \<open>
  Claim C2. With the client cached, when the SDK call of an adapter succeeds and
  the table is empty (for \<open>get_global_news\<close>: once the start date has been
  computed), the adapter returns, without raising, the message
  "No ... found" of its capability, naming its arguments. The outcome is not an
  error: the only effect is the SDK call itself, and no warning is logged.
\<close>

theorem empty_result_message:
  assumes "obb_global s = Some ob" and "empty_df df"
  shows "(call ob Equity_price_historical (stock_kwargs symbol start_date end_date) = Inr df \<longrightarrow>
            get_stock_data w symbol start_date end_date s
              = (Inr (''No data found for symbol '' @ quoted symbol @ '' between '' @ start_date @
                      '' and '' @ end_date),
                 emit (Call Equity_price_historical (stock_kwargs symbol start_date end_date)) s))
       \<and> (call ob Equity_profile (profile_kwargs ticker) = Inr df \<longrightarrow>
            get_fundamentals w ticker s
              = (Inr (''No fundamentals data found for symbol '' @ quoted ticker),
                 emit (Call Equity_profile (profile_kwargs ticker)) s))
       \<and> (call ob Equity_fundamental_balance (statement_kwargs ticker freq) = Inr df \<longrightarrow>
            get_balance_sheet w ticker freq s
              = (Inr (''No balance sheet data found for symbol '' @ quoted ticker),
                 emit (Call Equity_fundamental_balance (statement_kwargs ticker freq)) s))
       \<and> (call ob Equity_fundamental_cash (statement_kwargs ticker freq) = Inr df \<longrightarrow>
            get_cashflow w ticker freq s
              = (Inr (''No cash flow data found for symbol '' @ quoted ticker),
                 emit (Call Equity_fundamental_cash (statement_kwargs ticker freq)) s))
       \<and> (call ob Equity_fundamental_income (statement_kwargs ticker freq) = Inr df \<longrightarrow>
            get_income_statement w ticker freq s
              = (Inr (''No income statement data found for symbol '' @ quoted ticker),
                 emit (Call Equity_fundamental_income (statement_kwargs ticker freq)) s))
       \<and> (call ob Equity_ownership_insider_trading (insider_kwargs ticker) = Inr df \<longrightarrow>
            get_insider_transactions w ticker s
              = (Inr (''No insider transactions data found for symbol '' @ quoted ticker),
                 emit (Call Equity_ownership_insider_trading (insider_kwargs ticker)) s))
       \<and> (call ob News_company (news_kwargs ticker start_date end_date) = Inr df \<longrightarrow>
            get_news w ticker start_date end_date s
              = (Inr (''No news found for '' @ ticker @ '' between '' @ start_date @
                      '' and '' @ end_date),
                 emit (Call News_company (news_kwargs ticker start_date end_date)) s))
       \<and> (start_date_of w curr_date look_back_days = Inr first_date
          \<and> call ob News_world (global_news_kwargs first_date curr_date limit) = Inr df \<longrightarrow>
            get_global_news w curr_date look_back_days limit s
              = (Inr (''No global news found for '' @ curr_date),
                 emit (Call News_world (global_news_kwargs first_date curr_date limit)) s))
       \<and> (call ob Equity_fundamental_filings (filings_kwargs ticker filing_type limit) = Inr df \<longrightarrow>
            get_sec_filings w ticker filing_type limit s
              = (Inr (''No '' @ filing_type @ '' filings found for '' @ ticker),
                 emit (Call Equity_fundamental_filings (filings_kwargs ticker filing_type limit)) s))
       \<and> (call ob Economy_fred_series (fred_kwargs indicator from_date to_date) = Inr df \<longrightarrow>
            get_economic_indicators w indicator from_date to_date s
              = (Inr (''No data found for FRED series '' @ quoted indicator),
                 emit (Call Economy_fred_series (fred_kwargs indicator from_date to_date)) s))"
  using assms
  by (simp add: get_obb_cached sdk_def except_Exception_def get_stock_data_def
      get_fundamentals_def get_balance_sheet_def get_cashflow_def get_income_statement_def
      get_insider_transactions_def get_news_def get_global_news_def get_sec_filings_def
      get_economic_indicators_def)

theorem empty_result_message_witness:
  "get_balance_sheet (mock_world ''2025-01-15 10:00:00'') ''FAKE'' ''quarterly''
            (initialized (mock_obb (Inr empty_table)))
     = (Inr (''No balance sheet data found for symbol '' @ quoted ''FAKE''),
        \<lparr>obb_global = Some (mock_obb (Inr empty_table)),
         trace = [Call Equity_fundamental_balance
                    [(''symbol'', S ''FAKE''), (''period'', S ''quarter''),
                     (''provider'', S ''yfinance''), (''limit'', I 8)]]\<rparr>)
   \<and> get_sec_filings (mock_world ''2025-01-15 10:00:00'') ''FAKE'' ''10-K'' 5
            (initialized (mock_obb (Inr empty_table)))
     = (Inr ''No 10-K filings found for FAKE'',
        \<lparr>obb_global = Some (mock_obb (Inr empty_table)),
         trace = [Call Equity_fundamental_filings
                    [(''symbol'', S ''FAKE''), (''type'', S ''10-K''),
                     (''provider'', S ''sec''), (''limit'', I 5)]]\<rparr>)"
  using empty_result_message [where s = "initialized (mock_obb (Inr empty_table))"
      and ob = "mock_obb (Inr empty_table)" and df = empty_table and ticker = "''FAKE''"
      and freq = "''quarterly''" and filing_type = "''10-K''" and limit = 5
      and w = "mock_world ''2025-01-15 10:00:00''"]
  by (simp add: initialized_def mock_obb_def empty_table_def empty_df_def emit_def
      statement_kwargs_def filings_kwargs_def upper_def upper_char_def period_of_def lower_def lower_char_def)

section \<open>Call arguments: claims C7 and C9\<close>

text \<open>
  Claim C9. With the client cached, \<open>get_balance_sheet\<close>, \<open>get_cashflow\<close> and
  \<open>get_income_statement\<close> make exactly one SDK call for every \<open>freq\<close>, none is
  rejected, and its \<open>period\<close> is "quarter" when the lowercase of \<open>freq\<close> is
  "quarterly" and "annual" for every other string.
\<close>

theorem period_from_freq:
  assumes "obb_global s = Some ob"
  shows "sdk_calls (trace (snd (get_balance_sheet w ticker freq s)))
           = sdk_calls (trace s) @
             [(Equity_fundamental_balance,
               [(''symbol'', S (upper ticker)),
                (''period'', S (if lower freq = ''quarterly'' then ''quarter'' else ''annual'')),
                (''provider'', S ''yfinance''), (''limit'', I 8)])]
       \<and> sdk_calls (trace (snd (get_cashflow w ticker freq s)))
           = sdk_calls (trace s) @
             [(Equity_fundamental_cash,
               [(''symbol'', S (upper ticker)),
                (''period'', S (if lower freq = ''quarterly'' then ''quarter'' else ''annual'')),
                (''provider'', S ''yfinance''), (''limit'', I 8)])]
       \<and> sdk_calls (trace (snd (get_income_statement w ticker freq s)))
           = sdk_calls (trace s) @
             [(Equity_fundamental_income,
               [(''symbol'', S (upper ticker)),
                (''period'', S (if lower freq = ''quarterly'' then ''quarter'' else ''annual'')),
                (''provider'', S ''yfinance''), (''limit'', I 8)])]"
  using assms
  by (simp add: get_balance_sheet_def get_cashflow_def get_income_statement_def get_obb_cached
      sdk_calls_except_Exception statement_calls statement_kwargs_def period_of_def)

theorem period_from_freq_witness:
  "sdk_calls (trace (snd (get_balance_sheet (mock_world ''2025-01-15 10:00:00'') ''aapl''
                            ''monthly'' (initialized (mock_obb (Inr balance_table))))))
     = [(Equity_fundamental_balance,
         [(''symbol'', S ''AAPL''), (''period'', S ''annual''),
          (''provider'', S ''yfinance''), (''limit'', I 8)])]
   \<and> sdk_calls (trace (snd (get_cashflow (mock_world ''2025-01-15 10:00:00'') ''aapl''
                            [] (initialized (mock_obb (Inr balance_table))))))
     = [(Equity_fundamental_cash,
         [(''symbol'', S ''AAPL''), (''period'', S ''annual''),
          (''provider'', S ''yfinance''), (''limit'', I 8)])]
   \<and> sdk_calls (trace (snd (get_income_statement (mock_world ''2025-01-15 10:00:00'') ''aapl''
                            ''QUARTERLY'' (initialized (mock_obb (Inr balance_table))))))
     = [(Equity_fundamental_income,
         [(''symbol'', S ''AAPL''), (''period'', S ''quarter''),
          (''provider'', S ''yfinance''), (''limit'', I 8)])]"
  using period_from_freq [where s = "initialized (mock_obb (Inr balance_table))"
      and ob = "mock_obb (Inr balance_table)" and w = "mock_world ''2025-01-15 10:00:00''"
      and ticker = "''aapl''" and freq = "''monthly''"]
    period_from_freq [where s = "initialized (mock_obb (Inr balance_table))"
      and ob = "mock_obb (Inr balance_table)" and w = "mock_world ''2025-01-15 10:00:00''"
      and ticker = "''aapl''" and freq = "[]"]
    period_from_freq [where s = "initialized (mock_obb (Inr balance_table))"
      and ob = "mock_obb (Inr balance_table)" and w = "mock_world ''2025-01-15 10:00:00''"
      and ticker = "''aapl''" and freq = "''QUARTERLY''"]
  by (simp add: initialized_def upper_def upper_char_def lower_def lower_char_def)

text \<open>
  Claim C7. With the client cached,
  \<open>get_economic_indicators("UNRATE", "2024-01-01", "2024-12-31")\<close> calls the FRED
  endpoint exactly once, with exactly \<open>symbol\<close>, \<open>provider\<close>, \<open>start_date\<close> and
  \<open>end_date\<close>; in general the call has the keyword arguments \<open>fred_kwargs\<close>, from
  which a date that is \<open>None\<close> is left out.
\<close>

theorem fred_call_arguments:
  assumes "obb_global s = Some ob"
  shows "sdk_calls (trace (snd (get_economic_indicators w ''UNRATE'' (Some ''2024-01-01'')
                                  (Some ''2024-12-31'') s)))
           = sdk_calls (trace s) @
             [(Economy_fred_series,
               [(''symbol'', S ''UNRATE''), (''provider'', S ''fred''),
                (''start_date'', S ''2024-01-01''), (''end_date'', S ''2024-12-31'')])]
       \<and> sdk_calls (trace (snd (get_economic_indicators w indicator from_date to_date s)))
           = sdk_calls (trace s) @
             [(Economy_fred_series, fred_kwargs indicator from_date to_date)]
       \<and> fred_kwargs indicator None None
           = [(''symbol'', S indicator), (''provider'', S ''fred'')]
       \<and> (from_date = None \<longrightarrow>
            ''start_date'' \<notin> fst ` set (fred_kwargs indicator from_date to_date))
       \<and> (to_date = None \<longrightarrow>
            ''end_date'' \<notin> fst ` set (fred_kwargs indicator from_date to_date))"
  using assms
  by (cases to_date; cases from_date) (auto simp: fred_calls fred_kwargs_def)

theorem fred_call_arguments_witness:
  "sdk_calls (trace (snd (get_economic_indicators (mock_world ''2025-01-15 10:00:00'') ''UNRATE''
        (Some ''2024-01-01'') (Some ''2024-12-31'') (initialized (mock_obb (Inr balance_table))))))
     = [(Economy_fred_series,
         [(''symbol'', S ''UNRATE''), (''provider'', S ''fred''),
          (''start_date'', S ''2024-01-01''), (''end_date'', S ''2024-12-31'')])]
   \<and> sdk_calls (trace (snd (get_economic_indicators (mock_world ''2025-01-15 10:00:00'') ''GDP''
        None (Some ''2024-12-31'') (initialized (mock_obb (Inr balance_table))))))
     = [(Economy_fred_series,
         [(''symbol'', S ''GDP''), (''provider'', S ''fred''),
          (''end_date'', S ''2024-12-31'')])]"
  using fred_call_arguments [where s = "initialized (mock_obb (Inr balance_table))"
      and ob = "mock_obb (Inr balance_table)" and w = "mock_world ''2025-01-15 10:00:00''"
      and indicator = "''GDP''" and from_date = None and to_date = "Some ''2024-12-31''"]
  by (simp add: initialized_def fred_kwargs_def)

section \<open>Output of the tabular adapters: claims C6 and C10\<close>

text \<open>
  Claim C6. With the client cached, \<open>get_balance_sheet("AAPL", "quarterly")\<close> makes
  exactly one SDK call, to the balance endpoint, with \<open>symbol="AAPL"\<close>,
  \<open>period="quarter"\<close>, \<open>provider="yfinance"\<close> and \<open>limit=8\<close>. When the endpoint
  returns a table that is not empty, the adapter returns the header followed by
  the CSV text pandas writes for the table; the result contains "Balance Sheet",
  and it shows every cell of the table that the CSV text shows.
\<close>

theorem balance_sheet_quarterly:
  assumes "obb_global s = Some ob"
  shows "sdk_calls (trace (snd (get_balance_sheet w ''AAPL'' ''quarterly'' s)))
           = sdk_calls (trace s) @
             [(Equity_fundamental_balance,
               [(''symbol'', S ''AAPL''), (''period'', S ''quarter''),
                (''provider'', S ''yfinance''), (''limit'', I 8)])]
       \<and> (\<forall>df. call ob Equity_fundamental_balance
                   [(''symbol'', S ''AAPL''), (''period'', S ''quarter''),
                    (''provider'', S ''yfinance''), (''limit'', I 8)] = Inr df
                 \<and> \<not> empty_df df \<longrightarrow>
              (\<exists>out. fst (get_balance_sheet w ''AAPL'' ''quarterly'' s) = Inr out
                   \<and> out = balance_sheet_header w ''AAPL'' ''quarterly'' @ to_csv w df
                   \<and> sublist ''Balance Sheet'' out
                   \<and> (shows_cells w df (to_csv w df) \<longrightarrow> shows_cells w df out)))"
proof -
  have calls: "sdk_calls (trace (snd (get_balance_sheet w ''AAPL'' ''quarterly'' s)))
           = sdk_calls (trace s) @
             [(Equity_fundamental_balance, statement_kwargs ''AAPL'' ''quarterly'')]"
    using assms
    by (simp add: get_balance_sheet_def get_obb_cached sdk_calls_except_Exception statement_calls)
  have out: "fst (get_balance_sheet w ''AAPL'' ''quarterly'' s)
               = Inr (balance_sheet_header w ''AAPL'' ''quarterly'' @ to_csv w df)"
    if "call ob Equity_fundamental_balance (statement_kwargs ''AAPL'' ''quarterly'') = Inr df"
      and "\<not> empty_df df" for df
    using balance_sheet_nonempty [OF assms that] by simp
  show ?thesis
    using calls out
    by (simp add: quarterly_kwargs balance_sheet_header_title sublist_before shows_cells_after)
qed

theorem balance_sheet_quarterly_witness:
  "fst (get_balance_sheet (mock_world ''2025-01-15 10:00:00'') ''AAPL'' ''quarterly''
          (initialized (mock_obb (Inr balance_table))))
     = Inr (balance_sheet_header (mock_world ''2025-01-15 10:00:00'') ''AAPL'' ''quarterly'' @
            plain_csv balance_table)
   \<and> shows_cells (mock_world ''2025-01-15 10:00:00'') balance_table (plain_csv balance_table)
   \<and> shows_cells (mock_world ''2025-01-15 10:00:00'') balance_table
        (balance_sheet_header (mock_world ''2025-01-15 10:00:00'') ''AAPL'' ''quarterly'' @
         plain_csv balance_table)
   \<and> cell_str (Num 100000) = ''100000''
   \<and> Num 100000 \<in> set (cells_of balance_table)"
proof -
  have shown: "shows_cells (mock_world ''2025-01-15 10:00:00'') balance_table
                 (plain_csv balance_table)"
    by (simp add: shows_cells_def cells_of_def balance_table_def plain_csv_def mock_world_def
        decimal_int_def decimal.simps digit_char_def sublist_Cons_right)
  have cell: "cell_str (Num 100000) = ''100000''"
    by (simp add: decimal_int_def decimal.simps digit_char_def)
  show ?thesis
    using shown cell
      balance_sheet_quarterly [where s = "initialized (mock_obb (Inr balance_table))"
        and ob = "mock_obb (Inr balance_table)" and w = "mock_world ''2025-01-15 10:00:00''"]
    by (simp add: initialized_def mock_obb_def mock_world_def balance_table_def empty_df_def
        cells_of_def)
qed

text \<open>
  Claim C10. With the client cached and a FRED result of \<open>n > 0\<close> rows, the
  adapter returns the header followed by the CSV text of \<open>df.tail(20)\<close>, that
  is of the last \<open>min n 20\<close> rows, the earlier rows being dropped without a
  warning; the header has the line "# Showing last \<open>min n 20\<close> data points".
\<close>

theorem fred_last_20:
  assumes "obb_global s = Some ob"
    and "call ob Economy_fred_series (fred_kwargs indicator from_date to_date) = Inr df"
    and "\<not> empty_df df"
  shows "get_economic_indicators w indicator from_date to_date s
           = (Inr (fred_header w indicator (min (len_df df) 20) @ to_csv w (tail_df 20 df)),
              emit (Call Economy_fred_series (fred_kwargs indicator from_date to_date)) s)
       \<and> columns (tail_df 20 df) = columns df
       \<and> rows (tail_df 20 df) = drop (len_df df - 20) (rows df)
       \<and> len_df (tail_df 20 df) = min (len_df df) 20
       \<and> sublist ([CHR 0x0A] @ ''# Showing last '' @ decimal (min (len_df df) 20) @
                   '' data points'' @ [CHR 0x0A])
            (fred_header w indicator (min (len_df df) 20))"
  using economic_indicators_nonempty [OF assms, of w] fred_header_count
  by (simp add: len_tail_df) (simp add: tail_df_def len_df_def)

theorem fred_last_20_witness:
  "fst (get_economic_indicators (mock_world ''2025-01-15 10:00:00'') ''UNRATE'' None None
          (initialized (mock_obb (Inr (fred_table 22)))))
     = Inr (fred_header (mock_world ''2025-01-15 10:00:00'') ''UNRATE'' 20 @
            plain_csv (tail_df 20 (fred_table 22)))
   \<and> len_df (fred_table 22) = 22
   \<and> rows (tail_df 20 (fred_table 22)) = drop 2 (rows (fred_table 22))
   \<and> hd (rows (tail_df 20 (fred_table 22))) = (Num 2, [Num 102])"
proof -
  have n: "len_df (fred_table 22) = 22"
    by (simp add: len_df_def fred_table_def)
  have ne: "\<not> empty_df (fred_table 22)"
    by (simp add: empty_df_def fred_table_def)
  have first: "hd (drop 2 (rows (fred_table 22))) = (Num 2, [Num 102])"
    by (simp add: fred_table_def hd_drop_conv_nth)
  show ?thesis
    using n ne first
      fred_last_20 [where s = "initialized (mock_obb (Inr (fred_table 22)))"
        and ob = "mock_obb (Inr (fred_table 22))" and w = "mock_world ''2025-01-15 10:00:00''"
        and indicator = "''UNRATE''" and from_date = None and to_date = None
        and df = "fred_table 22"]
    by (simp add: initialized_def mock_obb_def mock_world_def)
qed

section \<open>The header of the tabular adapters: claim C8\<close>

text \<open>
  Claim C8 as stated fails: for a balance sheet of three rows the header is the
  title line, the source line and the retrieval line, and the record count 3
  occurs nowhere in it.
\<close>

theorem header_without_count_counterexample:
  "fst (get_balance_sheet (mock_world ''2025-01-15 10:00:00'') ''AAPL'' ''quarterly''
          (initialized (mock_obb (Inr three_quarters))))
     = Inr (''# Balance Sheet data for AAPL (quarterly)\<newline># Source: OpenBB\<newline># Data retrieved on: 2025-01-15 10:00:00\<newline>\<newline>'' @
            plain_csv three_quarters)
   \<and> len_df three_quarters = 3
   \<and> \<not> commented_csv_block (mock_world ''2025-01-15 10:00:00'') (len_df three_quarters)
          (plain_csv three_quarters)
          (''# Balance Sheet data for AAPL (quarterly)\<newline># Source: OpenBB\<newline># Data retrieved on: 2025-01-15 10:00:00\<newline>\<newline>'' @
           plain_csv three_quarters)"
proof -
  have out: "fst (get_balance_sheet (mock_world ''2025-01-15 10:00:00'') ''AAPL'' ''quarterly''
          (initialized (mock_obb (Inr three_quarters))))
     = Inr (''# Balance Sheet data for AAPL (quarterly)\<newline># Source: OpenBB\<newline># Data retrieved on: 2025-01-15 10:00:00\<newline>\<newline>'' @
            plain_csv three_quarters)"
    by (simp add: get_balance_sheet_def get_obb_def initialized_def mock_obb_def sdk_def
        except_Exception_def empty_df_def three_quarters_def balance_sheet_header_def
        mock_world_def retrieved_on_def statement_kwargs_def upper_def upper_char_def)
  have n: "len_df three_quarters = 3"
    by (simp add: len_df_def three_quarters_def)
  have three: "decimal 3 = ''3''"
    by (simp add: decimal.simps digit_char_def)
  have "\<not> sublist ''3'' ''# Balance Sheet data for AAPL (quarterly)\<newline># Source: OpenBB\<newline># Data retrieved on: 2025-01-15 10:00:00\<newline>\<newline>''"
    by (simp add: sublist_Cons_right)
  then show ?thesis
    using out n three
    by (simp only: commented_csv_block_def header_of_append) simp
qed

text \<open>
  Claim C8, amended. With the client cached and a result that is not empty, each
  of the six tabular adapters returns a header followed by the CSV text of the
  table; every header states the source and the retrieval time. The record count
  is stated by \<open>get_stock_data\<close> ("# Total records: n") and by
  \<open>get_economic_indicators\<close> ("# Showing last min(n, 20) data points") only; the
  headers of the financial statements and of the insider transactions are made
  from the ticker, the frequency and the time alone.
\<close>

theorem commented_csv_output:
  assumes "obb_global s = Some ob" and "\<not> empty_df df"
  shows "(call ob Equity_price_historical (stock_kwargs symbol start_date end_date) = Inr df \<longrightarrow>
            fst (get_stock_data w symbol start_date end_date s)
              = Inr (stock_header w symbol start_date end_date (len_df df) @
                     to_csv w (round_numeric w (rename_columns df)))
            \<and> source_and_time w (stock_header w symbol start_date end_date (len_df df))
            \<and> sublist (''# Total records: '' @ decimal (len_df df) @ [CHR 0x0A])
                 (stock_header w symbol start_date end_date (len_df df)))
       \<and> (call ob Economy_fred_series (fred_kwargs indicator from_date to_date) = Inr df \<longrightarrow>
            fst (get_economic_indicators w indicator from_date to_date s)
              = Inr (fred_header w indicator (min (len_df df) 20) @ to_csv w (tail_df 20 df))
            \<and> source_and_time w (fred_header w indicator (min (len_df df) 20))
            \<and> sublist ([CHR 0x0A] @ ''# Showing last '' @ decimal (min (len_df df) 20) @
                        '' data points'' @ [CHR 0x0A])
                 (fred_header w indicator (min (len_df df) 20)))
       \<and> (call ob Equity_fundamental_balance (statement_kwargs ticker freq) = Inr df \<longrightarrow>
            fst (get_balance_sheet w ticker freq s)
              = Inr (balance_sheet_header w ticker freq @ to_csv w df)
            \<and> source_and_time w (balance_sheet_header w ticker freq))
       \<and> (call ob Equity_fundamental_cash (statement_kwargs ticker freq) = Inr df \<longrightarrow>
            fst (get_cashflow w ticker freq s)
              = Inr (cashflow_header w ticker freq @ to_csv w df)
            \<and> source_and_time w (cashflow_header w ticker freq))
       \<and> (call ob Equity_fundamental_income (statement_kwargs ticker freq) = Inr df \<longrightarrow>
            fst (get_income_statement w ticker freq s)
              = Inr (income_statement_header w ticker freq @ to_csv w df)
            \<and> source_and_time w (income_statement_header w ticker freq))
       \<and> (call ob Equity_ownership_insider_trading (insider_kwargs ticker) = Inr df \<longrightarrow>
            fst (get_insider_transactions w ticker s)
              = Inr (insider_header w ticker @ to_csv w df)
            \<and> source_and_time w (insider_header w ticker))"
  using assms stock_header_count [of "len_df df" w symbol start_date end_date]
    fred_header_count [of "min (len_df df) 20" w indicator]
  by (simp add: stock_data_nonempty economic_indicators_nonempty balance_sheet_nonempty
      cashflow_nonempty income_statement_nonempty insider_transactions_nonempty
      len_tail_df stock_header_ok fred_header_ok balance_sheet_header_ok cashflow_header_ok
      income_statement_header_ok insider_header_ok)

theorem commented_csv_output_witness:
  "fst (get_stock_data (mock_world ''2025-01-15 10:00:00'') ''aapl'' ''2025-01-01'' ''2025-01-02''
          (initialized (mock_obb (Inr price_table))))
     = Inr ''# Stock data for AAPL from 2025-01-01 to 2025-01-02\<newline># Total records: 2\<newline># Source: OpenBB (yfinance provider)\<newline># Data retrieved on: 2025-01-15 10:00:00\<newline>\<newline>,Open,High,Low,Close,Volume\<newline>0,150,155,149,154,1000000\<newline>1,151,156,150,155,1100000\<newline>''
   \<and> fst (get_insider_transactions (mock_world ''2025-01-15 10:00:00'') ''aapl''
          (initialized (mock_obb (Inr price_table))))
     = Inr (''# Insider Transactions data for AAPL\<newline># Source: OpenBB (SEC)\<newline># Data retrieved on: 2025-01-15 10:00:00\<newline>\<newline>'' @
            plain_csv price_table)"
  using commented_csv_output [where s = "initialized (mock_obb (Inr price_table))"
      and ob = "mock_obb (Inr price_table)" and df = price_table
      and w = "mock_world ''2025-01-15 10:00:00''" and symbol = "''aapl''"
      and start_date = "''2025-01-01''" and end_date = "''2025-01-02''" and ticker = "''aapl''"]
  by (simp add: initialized_def mock_obb_def mock_world_def price_table_def empty_df_def
      len_df_def stock_header_def insider_header_def retrieved_on_def upper_def upper_char_def
      decimal.simps digit_char_def decimal_int_def plain_csv_def round_numeric_def
      rename_columns_def col_map_def numeric_cols_def)

section \<open>Exceptions of the SDK: claim C1\<close>

text \<open>
  Claim C1 as stated fails in two ways. In \<open>get_fundamentals\<close> the call of the
  metrics endpoint has a handler of its own, \<open>except Exception: pass\<close>: when
  that call raises, the adapter returns the profile as if nothing had happened,
  and the result contains neither "Error" nor the message. And the handlers are
  \<open>except Exception\<close>: an exception that is not an instance of \<open>Exception\<close>,
  such as \<open>KeyboardInterrupt\<close>, leaves the adapter as a raise.
\<close>

theorem swallowed_or_uncaught_counterexample:
  "fst (get_fundamentals (mock_world ''2025-01-15 10:00:00'') ''AAPL''
          (initialized metrics_unavailable))
     = Inr ''# Company Fundamentals for AAPL\<newline># Source: OpenBB\<newline># Data retrieved on: 2025-01-15 10:00:00\<newline>\<newline>Name: Apple Inc.\<newline>Sector: Technology\<newline>Industry: Consumer Electronics\<newline>Market Cap: 3000000000000''
   \<and> sdk_calls (trace (snd (get_fundamentals (mock_world ''2025-01-15 10:00:00'') ''AAPL''
                              (initialized metrics_unavailable))))
     = [(Equity_profile, [(''symbol'', S ''AAPL''), (''provider'', S ''yfinance'')]),
        (Equity_fundamental_metrics, [(''symbol'', S ''AAPL''), (''provider'', S ''yfinance'')])]
   \<and> call metrics_unavailable Equity_fundamental_metrics
         [(''symbol'', S ''AAPL''), (''provider'', S ''yfinance'')]
     = Inl (PyExn (OtherException ''Exception'') ''not available'')
   \<and> \<not> reports (PyExn (OtherException ''Exception'') ''not available'')
         ''# Company Fundamentals for AAPL\<newline># Source: OpenBB\<newline># Data retrieved on: 2025-01-15 10:00:00\<newline>\<newline>Name: Apple Inc.\<newline>Sector: Technology\<newline>Industry: Consumer Electronics\<newline>Market Cap: 3000000000000''
   \<and> fst (get_balance_sheet (mock_world ''2025-01-15 10:00:00'') ''AAPL'' ''quarterly''
            (initialized (mock_obb (Inl (PyExn KeyboardInterrupt [])))))
     = Inl (PyExn KeyboardInterrupt [])"
proof -
  have run: "get_fundamentals (mock_world ''2025-01-15 10:00:00'') ''AAPL''
          (initialized metrics_unavailable)
     = (Inr ''# Company Fundamentals for AAPL\<newline># Source: OpenBB\<newline># Data retrieved on: 2025-01-15 10:00:00\<newline>\<newline>Name: Apple Inc.\<newline>Sector: Technology\<newline>Industry: Consumer Electronics\<newline>Market Cap: 3000000000000'',
        \<lparr>obb_global = Some metrics_unavailable,
         trace = [Call Equity_profile [(''symbol'', S ''AAPL''), (''provider'', S ''yfinance'')],
                  Call Equity_fundamental_metrics
                    [(''symbol'', S ''AAPL''), (''provider'', S ''yfinance'')]]\<rparr>)"
    by (simp add: get_fundamentals_def get_obb_def initialized_def metrics_unavailable_def
        sdk_def except_Exception_def emit_def metrics_lines_def profile_kwargs_def
        profile_table_def empty_df_def fundamentals_header_def retrieved_on_def mock_world_def
        field_map_def row_get_def upper_def upper_char_def decimal_int_def decimal.simps
        digit_char_def)
  have silent: "\<not> sublist ''Error''
      ''# Company Fundamentals for AAPL\<newline># Source: OpenBB\<newline># Data retrieved on: 2025-01-15 10:00:00\<newline>\<newline>Name: Apple Inc.\<newline>Sector: Technology\<newline>Industry: Consumer Electronics\<newline>Market Cap: 3000000000000''"
    by (simp add: sublist_Cons_right)
  have raised: "call metrics_unavailable Equity_fundamental_metrics
         [(''symbol'', S ''AAPL''), (''provider'', S ''yfinance'')]
     = Inl (PyExn (OtherException ''Exception'') ''not available'')"
    by (simp add: metrics_unavailable_def)
  have interrupt: "fst (get_balance_sheet (mock_world ''2025-01-15 10:00:00'') ''AAPL''
            ''quarterly'' (initialized (mock_obb (Inl (PyExn KeyboardInterrupt [])))))
     = Inl (PyExn KeyboardInterrupt [])"
    by (simp add: get_balance_sheet_def get_obb_def initialized_def mock_obb_def sdk_def
        except_Exception_def)
  show ?thesis
    using run silent raised interrupt by (simp add: reports_def)
qed

text \<open>
  Claim C1, amended. With the client cached, when the SDK call that fetches an
  adapter's table raises an instance of \<open>Exception\<close>, the adapter does not
  raise: it returns "Error ... : " followed by the text of the exception, a
  string that contains "Error" and that text (for \<open>get_global_news\<close>: once the
  start date has been computed). In \<open>get_fundamentals\<close> an instance of
  \<open>Exception\<close> raised by the supplementary metrics call is dropped, and the
  adapter returns the header and the lines of the profile.
\<close>

theorem sdk_exception_to_error_string:
  assumes "obb_global s = Some ob" and "isinstance_Exception e"
  shows "(call ob Equity_price_historical (stock_kwargs symbol start_date end_date) = Inl e \<longrightarrow>
            fst (get_stock_data w symbol start_date end_date s)
              = Inr (''Error fetching stock data for '' @ symbol @ '': '' @ exn_str e)
            \<and> reports e (''Error fetching stock data for '' @ symbol @ '': '' @ exn_str e))
       \<and> (call ob Equity_profile (profile_kwargs ticker) = Inl e \<longrightarrow>
            fst (get_fundamentals w ticker s)
              = Inr (''Error retrieving fundamentals for '' @ ticker @ '': '' @ exn_str e)
            \<and> reports e (''Error retrieving fundamentals for '' @ ticker @ '': '' @ exn_str e))
       \<and> (call ob Equity_fundamental_balance (statement_kwargs ticker freq) = Inl e \<longrightarrow>
            fst (get_balance_sheet w ticker freq s)
              = Inr (''Error retrieving balance sheet for '' @ ticker @ '': '' @ exn_str e)
            \<and> reports e (''Error retrieving balance sheet for '' @ ticker @ '': '' @ exn_str e))
       \<and> (call ob Equity_fundamental_cash (statement_kwargs ticker freq) = Inl e \<longrightarrow>
            fst (get_cashflow w ticker freq s)
              = Inr (''Error retrieving cash flow for '' @ ticker @ '': '' @ exn_str e)
            \<and> reports e (''Error retrieving cash flow for '' @ ticker @ '': '' @ exn_str e))
       \<and> (call ob Equity_fundamental_income (statement_kwargs ticker freq) = Inl e \<longrightarrow>
            fst (get_income_statement w ticker freq s)
              = Inr (''Error retrieving income statement for '' @ ticker @ '': '' @ exn_str e)
            \<and> reports e (''Error retrieving income statement for '' @ ticker @ '': '' @ exn_str e))
       \<and> (call ob Equity_ownership_insider_trading (insider_kwargs ticker) = Inl e \<longrightarrow>
            fst (get_insider_transactions w ticker s)
              = Inr (''Error retrieving insider transactions for '' @ ticker @ '': '' @ exn_str e)
            \<and> reports e (''Error retrieving insider transactions for '' @ ticker @ '': '' @
                 exn_str e))
       \<and> (call ob News_company (news_kwargs ticker start_date end_date) = Inl e \<longrightarrow>
            fst (get_news w ticker start_date end_date s)
              = Inr (''Error fetching news for '' @ ticker @ '': '' @ exn_str e)
            \<and> reports e (''Error fetching news for '' @ ticker @ '': '' @ exn_str e))
       \<and> (start_date_of w curr_date look_back_days = Inr first_date
          \<and> call ob News_world (global_news_kwargs first_date curr_date limit) = Inl e \<longrightarrow>
            fst (get_global_news w curr_date look_back_days limit s)
              = Inr (''Error fetching global news: '' @ exn_str e)
            \<and> reports e (''Error fetching global news: '' @ exn_str e))
       \<and> (call ob Equity_fundamental_filings (filings_kwargs ticker filing_type limit) = Inl e \<longrightarrow>
            fst (get_sec_filings w ticker filing_type limit s)
              = Inr (''Error retrieving SEC filings for '' @ ticker @ '': '' @ exn_str e)
            \<and> reports e (''Error retrieving SEC filings for '' @ ticker @ '': '' @ exn_str e))
       \<and> (call ob Economy_fred_series (fred_kwargs indicator from_date to_date) = Inl e \<longrightarrow>
            fst (get_economic_indicators w indicator from_date to_date s)
              = Inr (''Error retrieving FRED data for '' @ indicator @ '': '' @ exn_str e)
            \<and> reports e (''Error retrieving FRED data for '' @ indicator @ '': '' @ exn_str e))
       \<and> (call ob Equity_profile (profile_kwargs ticker) = Inr df \<and> \<not> empty_df df
          \<and> rows df = (i, row) # others
          \<and> call ob Equity_fundamental_metrics (profile_kwargs ticker) = Inl e \<longrightarrow>
            fst (get_fundamentals w ticker s)
              = Inr (fundamentals_header w ticker @
                     join [CHR 0x0A] (labelled_lines w df row field_map)))"
  using assms adapter_reports [of e ticker] adapter_reports(5) [of e symbol]
    adapter_reports(9) [of e indicator] global_news_reports [of e]
  by (simp add: get_stock_data_raises get_fundamentals_raises get_balance_sheet_raises
      get_cashflow_raises get_income_statement_raises get_insider_transactions_raises
      get_news_raises get_global_news_raises get_sec_filings_raises
      get_economic_indicators_raises fundamentals_metrics_raise)

theorem sdk_exception_to_error_string_witness:
  "fst (get_balance_sheet (mock_world ''2025-01-15 10:00:00'') ''AAPL'' ''quarterly''
          (initialized (mock_obb (Inl (PyExn (OtherException ''Exception'') ''API error'')))))
     = Inr ''Error retrieving balance sheet for AAPL: API error''
   \<and> reports (PyExn (OtherException ''Exception'') ''API error'')
        ''Error retrieving balance sheet for AAPL: API error''"
  using sdk_exception_to_error_string
    [where s = "initialized (mock_obb (Inl (PyExn (OtherException ''Exception'') ''API error'')))"
      and ob = "mock_obb (Inl (PyExn (OtherException ''Exception'') ''API error''))"
      and e = "PyExn (OtherException ''Exception'') ''API error''"
      and w = "mock_world ''2025-01-15 10:00:00''" and ticker = "''AAPL''"
      and freq = "''quarterly''"]
  by (simp add: initialized_def mock_obb_def)

section \<open>The fallback chain: claim C3\<close>

text \<open>
  Claim C3. For a capability whose category has a configured vendor that is
  registered for it, the candidate list is the configured vendor followed by
  the other registered vendors in registration order; it holds every registered
  vendor, so that when every implementation raises, \<open>route_to_vendor\<close> has
  tried the configured vendor first and then each of the others before it gives
  up. For a capability with exactly one registered vendor the candidate list has
  exactly one entry, whatever the configuration.
\<close>

theorem fallback_chain:
  assumes "get_category_for_method (tools_categories reg) name = Inr category"
    and "data_vendors cfg category = Some v"
    and "map_of (vendor_methods reg) name = Some impls"
    and "distinct (map fst impls)"
    and "v \<in> set (map fst impls)"
  shows "candidates (Some v) (default_order reg name) (map fst impls)
           = v # filter (\<lambda>u. u \<noteq> v) (map fst impls)
       \<and> set (candidates (Some v) (default_order reg name) (map fst impls)) = set (map fst impls)
       \<and> ((\<forall>(u, f) \<in> set impls. \<exists>e. f args = Inl e) \<longrightarrow>
            fst (route_to_vendor reg cfg name args) = v # filter (\<lambda>u. u \<noteq> v) (map fst impls))
       \<and> (length impls = 1 \<longrightarrow>
            (\<forall>c. (c = None \<longrightarrow> distinct (default_order reg name)) \<longrightarrow>
                 length (candidates c (default_order reg name) (map fst impls)) = 1))"
proof -
  have tried: "fst (route_to_vendor reg cfg name args) = v # filter (\<lambda>u. u \<noteq> v) (map fst impls)"
    if fail: "\<forall>(u, f) \<in> set impls. \<exists>e. f args = Inl e"
  proof -
    have "\<exists>f e. map_of impls u = Some f \<and> f args = Inl e"
      if "u \<in> set (v # filter (\<lambda>u. u \<noteq> v) (map fst impls))" for u
    proof -
      from that assms(5) have "u \<in> set (map fst impls)" by auto
      then obtain f where "(u, f) \<in> set impls" by auto
      with assms(4) fail show ?thesis by (auto simp: map_of_eq_Some_iff)
    qed
    then have "fst (try_candidates impls args (v # filter (\<lambda>u. u \<noteq> v) (map fst impls)) NoCandidate)
                 = v # filter (\<lambda>u. u \<noteq> v) (map fst impls)"
      by (intro try_all_raise) blast
    then show ?thesis
      using assms by (simp add: route_to_vendor_def candidates_configured)
  qed
  have first: "candidates (Some v) (default_order reg name) (map fst impls)
                 = v # filter (\<lambda>u. u \<noteq> v) (map fst impls)"
    using assms(5) by (rule candidates_configured)
  have every: "set (candidates (Some v) (default_order reg name) (map fst impls))
                 = set (map fst impls)"
    using assms(5) by (rule candidates_set)
  have single: "length impls = 1 \<longrightarrow>
            (\<forall>c. (c = None \<longrightarrow> distinct (default_order reg name)) \<longrightarrow>
                 length (candidates c (default_order reg name) (map fst impls)) = 1)"
  proof (intro impI allI)
    fix c :: "string option"
    assume one: "length impls = 1" and c: "c = None \<longrightarrow> distinct (default_order reg name)"
    then obtain x where x: "map fst impls = [x]"
      by (cases impls) auto
    show "length (candidates c (default_order reg name) (map fst impls)) = 1"
    proof (cases c)
      case None
      then show ?thesis
        using c x candidates_unset [of "default_order reg name" x] by simp
    next
      case (Some u)
      then show ?thesis
        using candidates_single [of "map fst impls" u "default_order reg name"] one by simp
    qed
  qed
  show ?thesis
    using first every single tried by blast
qed

theorem fallback_chain_witness:
  "fst (route_to_vendor example_registry example_config ''get_stock_data''
          [S ''AAPL'', S ''2025-01-01'', S ''2025-01-02''])
     = [''openbb'', ''yfinance'', ''alpha_vantage'']
   \<and> candidates (Some ''openbb'') [] [''openbb''] = [''openbb'']"
proof -
  have cat: "get_category_for_method (tools_categories example_registry) ''get_stock_data''
               = Inr ''core_stock_apis''"
    by (simp add: example_registry_def)
  have cfg: "data_vendors example_config ''core_stock_apis'' = Some ''openbb''"
    by (simp add: example_config_def)
  have impls: "map_of (vendor_methods example_registry) ''get_stock_data''
       = Some [(''yfinance'', failing ''yfinance''), (''alpha_vantage'', failing ''alpha_vantage''),
               (''openbb'', failing ''openbb'')]"
    by (simp add: example_registry_def)
  show ?thesis
    using fallback_chain [OF cat cfg impls, of "[S ''AAPL'', S ''2025-01-01'', S ''2025-01-02'']"]
    by (simp add: failing_def candidates_def)
qed

end
